theory Spec2Isabelle
  imports Complex_Main "HOL-Library.Multiset"
begin

section \<open>Python values\<close>

text \<open>
  Text is \<^typ>\<open>string\<close>, read as a Python \<open>str\<close> whose code points lie below 256
  (Latin-1). A Python \<open>float\<close> is a real or one of the three non-finite values; a float
  decoded from text or converted from an \<open>int\<close> is the nearest binary64 value, while the
  arithmetic on clock readings and averages is exact. A Python \<open>int\<close> is an \<^typ>\<open>int\<close>.
\<close>

datatype pyfloat = Fin real | PosInf | NegInf | NaN

text \<open>
  What \<open>json.loads\<close> can return, which is also what a model reply can carry:
  \<open>None\<close>, \<open>bool\<close>, \<open>int\<close>, \<open>float\<close>, \<open>str\<close>, \<open>list\<close> and \<open>dict\<close>. A \<open>dict\<close> keeps
  its keys in insertion order and holds each key once.
\<close>

datatype json =
    JNull
  | JBool bool
  | JInt int
  | JFloat pyfloat
  | JStr string
  | JList "json list"
  | JDict "(string \<times> json) list"

text \<open>
  The exception classes that the modelled code can meet. \<open>JSONDecodeError\<close> and pydantic's
  \<open>ValidationError\<close> are subclasses of \<open>ValueError\<close>; \<open>HTTPException\<close> (status code, detail)
  derives from \<open>Exception\<close> only. \<open>Unrepresentable\<close> is no exception of the code: it
  marks an input whose decoded text has a character above code 255, on which the model
  makes no statement; no handler catches it.
\<close>

datatype exn =
    HTTPException nat string
  | ValueError
  | JSONDecodeError
  | ValidationError
  | IndexError
  | TypeError
  | AttributeError
  | IntegrityError
  | RecursionError
  | Unrepresentable

definition is_ValueError :: "exn \<Rightarrow> bool" where
  "is_ValueError e = (e = ValueError \<or> e = JSONDecodeError \<or> e = ValidationError)"

type_synonym datetime = nat

subsection \<open>Text helpers\<close>

definition code :: "char \<Rightarrow> nat" where
  "code c = of_char c"

text \<open>\<open>str(i)\<close> for a non-negative integer \<open>i\<close>, as used by \<open>f"agent_{i}"\<close>.\<close>

definition digit_char :: "nat \<Rightarrow> char" where
  "digit_char d = char_of (48 + d)"

fun digits_fuel :: "nat \<Rightarrow> nat \<Rightarrow> string \<Rightarrow> string" where
  "digits_fuel 0 n acc = acc"
| "digits_fuel (Suc k) n acc =
     (if n < 10 then digit_char n # acc
      else digits_fuel k (n div 10) (digit_char (n mod 10) # acc))"

definition str_nat :: "nat \<Rightarrow> string" where
  "str_nat n = digits_fuel (Suc n) n []"

text \<open>\<open>str.isspace\<close> on Latin-1, and \<open>str.strip()\<close>.\<close>

definition isspace :: "char \<Rightarrow> bool" where
  "isspace c = (let n = code c in
     (9 \<le> n \<and> n \<le> 13) \<or> (28 \<le> n \<and> n \<le> 32) \<or> n = 133 \<or> n = 160)"

definition strip :: "string \<Rightarrow> string" where
  "strip s = rev (dropWhile isspace (rev (dropWhile isspace s)))"

subsection \<open>Floats\<close>

text \<open>
  \<open>binary64 x\<close> is the float nearest to the real \<open>x\<close>, a tie going to the even
  significand, and an infinity when that float would lie beyond the largest finite one:
  what \<open>float(text)\<close> and \<open>float(int)\<close> compute. The sign of a zero is not kept.
\<close>

definition pow2 :: "int \<Rightarrow> real" where
  "pow2 k = (if 0 \<le> k then 2 ^ nat k else 1 / 2 ^ nat (- k))"

definition round_half_even :: "real \<Rightarrow> int" where
  "round_half_even y =
     (let f = \<lfloor>y\<rfloor>; d = y - of_int f
      in if d < 1 / 2 then f else if 1 / 2 < d then f + 1 else if even f then f else f + 1)"

text \<open>The exponent \<open>e\<close> with \<open>2 ^ e \<le> x < 2 ^ (e + 1)\<close>, searched within the given number of steps.\<close>

fun exponent_from :: "nat \<Rightarrow> int \<Rightarrow> real \<Rightarrow> int" where
  "exponent_from 0 e x = e"
| "exponent_from (Suc k) e x =
     (if 2 \<le> x then exponent_from k (e + 1) (x / 2)
      else if x < 1 then exponent_from k (e - 1) (x * 2)
      else e)"

definition binary64 :: "real \<Rightarrow> pyfloat" where
  "binary64 x =
     (if x = 0 then Fin 0
      else
        (let a = \<bar>x\<bar>;
             e = exponent_from 2200 0 a;
             quantum = (if e < - 1022 then pow2 (- 1074) else pow2 (e - 52));
             r = of_int (round_half_even (a / quantum)) * quantum
         in if pow2 1024 \<le> r then (if 0 < x then PosInf else NegInf)
            else Fin (if 0 < x then r else - r)))"

section \<open>Schemas (backend/schemas/decision.py)\<close>

record Citation =
  source :: string
  excerpt :: string
  cite_confidence :: real

record Risk =
  category :: string
  severity :: string
  description :: string

record AgentResponse =
  agent_id :: string
  agent_model :: string
  response :: string
  agent_timestamp :: datetime

record JudgeEvaluation =
  judge_id :: string
  judge_model :: string
  rankings :: "string list"
  scores :: "(string \<times> (string \<times> pyfloat) list) list"
  rationale :: string

record DecisionObject =
  question :: string
  final_answer :: string
  confidence :: real
  agent_responses :: "AgentResponse list"
  judge_evaluations :: "JudgeEvaluation list"
  risks :: "Risk list"
  citations :: "Citation list"
  timestamp :: datetime
  audit_id :: string
  processing_time_seconds :: "real option"

section \<open>Safety gate (backend/safety/gate.py)\<close>

subsection \<open>The three pattern rules\<close>

text \<open>
  Each rule of \<open>UNSAFE_PATTERNS\<close> has the shape \<open>\b(w1|w2|...)\b\<close> and is searched with
  \<open>re.IGNORECASE\<close>. A rule is kept as the list of its alternatives; \<open>re_search\<close> below is
  \<open>re.search\<close> for a pattern of that shape. \<open>\w\<close> is a letter, a digit or the underscore
  (on Latin-1: what \<open>str.isalnum\<close> accepts, or \<open>_\<close>).
\<close>

definition is_word_char :: "char \<Rightarrow> bool" where
  "is_word_char c = (let n = code c in
     (48 \<le> n \<and> n \<le> 57) \<or> (65 \<le> n \<and> n \<le> 90) \<or> n = 95 \<or> (97 \<le> n \<and> n \<le> 122)
     \<or> n = 170 \<or> n = 178 \<or> n = 179 \<or> n = 181 \<or> n = 185 \<or> n = 186
     \<or> (188 \<le> n \<and> n \<le> 190) \<or> (192 \<le> n \<and> n \<le> 214) \<or> (216 \<le> n \<and> n \<le> 246)
     \<or> 248 \<le> n)"

text \<open>A pattern character \<open>p\<close> against a text character \<open>c\<close>, ignoring case.\<close>

definition char_matches :: "char \<Rightarrow> char \<Rightarrow> bool" where
  "char_matches p c =
     (c = p \<or> (97 \<le> code p \<and> code p \<le> 122 \<and> code c + 32 = code p)
            \<or> (65 \<le> code p \<and> code p \<le> 90 \<and> code c = code p + 32))"

fun literal_at :: "string \<Rightarrow> string \<Rightarrow> bool" where
  "literal_at [] s = True"
| "literal_at (p # ps) [] = False"
| "literal_at (p # ps) (c # cs) = (char_matches p c \<and> literal_at ps cs)"

text \<open>\<open>\b\<close> between the character before a position (if any) and the one after it (if any).\<close>

definition word_boundary :: "char option \<Rightarrow> char option \<Rightarrow> bool" where
  "word_boundary left right =
     ((case left of None \<Rightarrow> False | Some c \<Rightarrow> is_word_char c)
      \<noteq> (case right of None \<Rightarrow> False | Some c \<Rightarrow> is_word_char c))"

definition first_char :: "string \<Rightarrow> char option" where
  "first_char s = (case s of [] \<Rightarrow> None | c # _ \<Rightarrow> Some c)"

text \<open>\<open>\bw\b\<close> matched at the start of \<open>s\<close>, where \<open>prev\<close> is the character before \<open>s\<close>.\<close>

definition alternative_at :: "char option \<Rightarrow> string \<Rightarrow> string \<Rightarrow> bool" where
  "alternative_at prev w s =
     (literal_at w s
      \<and> word_boundary prev (first_char s)
      \<and> word_boundary (if w = [] then prev else Some (last (take (length w) s)))
                       (first_char (drop (length w) s)))"

fun re_search_from :: "string list \<Rightarrow> char option \<Rightarrow> string \<Rightarrow> bool" where
  "re_search_from ws prev [] = list_ex (\<lambda>w. alternative_at prev w []) ws"
| "re_search_from ws prev (c # cs) =
     (list_ex (\<lambda>w. alternative_at prev w (c # cs)) ws \<or> re_search_from ws (Some c) cs)"

definition re_search :: "string list \<Rightarrow> string \<Rightarrow> bool" where
  "re_search ws s = re_search_from ws None s"

definition UNSAFE_PATTERNS :: "(string list \<times> string) list" where
  "UNSAFE_PATTERNS =
     [([''kill'', ''murder'', ''suicide'', ''harm yourself''], ''violence''),
      ([''illegal'', ''hack'', ''crack'', ''pirate''], ''illegal_activity''),
      ([''racist'', ''sexist'', ''discriminat''], ''discrimination'')]"

definition MIN_CONFIDENCE :: real where
  "MIN_CONFIDENCE = 0.5"

subsection \<open>The result\<close>

text \<open>
  The entries of the \<open>violations\<close> and \<open>warnings\<close> lists are dicts; each constructor below
  is one shape of dict, named by its \<open>"type"\<close> entry, with the other entries as arguments:
  \<open>Unsafe_pattern type reason\<close>, \<open>High_risk_detected count risks\<close>,
  \<open>Low_confidence value threshold\<close> (its \<open>reason\<close> is a formatting of the same two numbers)
  and \<open>Judge_disagreement judge_0_top judge_1_top\<close>.
\<close>

datatype violation =
    Unsafe_pattern string string
  | High_risk_detected nat "string list"

datatype warning =
    Low_confidence real real
  | Judge_disagreement string string

record SafetyResult =
  passed :: bool
  violations :: "violation list"
  warnings :: "warning list"
  echoed_confidence :: real

subsection \<open>\<open>safety_check\<close>\<close>

definition check_patterns :: "string \<Rightarrow> violation list" where
  "check_patterns answer =
     map (\<lambda>(pattern, violation_type).
            Unsafe_pattern violation_type (''Detected unsafe pattern: '' @ violation_type))
         (filter (\<lambda>(pattern, violation_type). re_search pattern answer) UNSAFE_PATTERNS)"

definition check_confidence :: "real \<Rightarrow> warning list" where
  "check_confidence c = (if c < MIN_CONFIDENCE then [Low_confidence c MIN_CONFIDENCE] else [])"

definition check_high_risks :: "Risk list \<Rightarrow> violation list" where
  "check_high_risks rs =
     (let high_risks = filter (\<lambda>r. severity r = ''high'') rs
      in if high_risks \<noteq> []
         then [High_risk_detected (length high_risks) (map description high_risks)]
         else [])"

text \<open>
  Check 4 reads \<open>rank1[0]\<close> and \<open>rank2[0]\<close>; on an empty list Python raises \<open>IndexError\<close>.
\<close>

definition index0 :: "'a list \<Rightarrow> exn + 'a" where
  "index0 xs = (case xs of [] \<Rightarrow> Inl IndexError | x # _ \<Rightarrow> Inr x)"

definition check_judges :: "JudgeEvaluation list \<Rightarrow> exn + warning list" where
  "check_judges es =
     (if length es \<ge> 2 then
        (let rank1 = rankings (es ! 0); rank2 = rankings (es ! 1)
         in case index0 rank1 of
              Inl e \<Rightarrow> Inl e
            | Inr top1 \<Rightarrow>
               (case index0 rank2 of
                  Inl e \<Rightarrow> Inl e
                | Inr top2 \<Rightarrow>
                    Inr (if top1 \<noteq> top2 then [Judge_disagreement top1 top2] else [])))
      else Inr [])"

definition safety_check :: "DecisionObject \<Rightarrow> exn + SafetyResult" where
  "safety_check decision =
     (let violations1 = check_patterns (final_answer decision);
          warnings2 = check_confidence (confidence decision);
          violations3 = violations1 @ check_high_risks (risks decision)
      in case check_judges (judge_evaluations decision) of
           Inl e \<Rightarrow> Inl e
         | Inr warnings4 \<Rightarrow>
             Inr \<lparr> passed = (length violations3 = 0),
                   violations = violations3,
                   warnings = warnings2 @ warnings4,
                   echoed_confidence = confidence decision \<rparr>)"

section \<open>Library behaviour taken as a parameter\<close>

text \<open>
  Some behaviour of the interpreter and its libraries depends on their version, on their
  settings or on the state of the call stack. It is a parameter of the model:
  \<open>str_json\<close> is \<open>str(v)\<close> of a decoded value; \<open>str_exn\<close> is \<open>str(e)\<close> of an exception;
  \<open>float_of_str\<close> is pydantic's reading of a string given for a \<open>float\<close> field;
  \<open>int_max_str_digits\<close> is the limit on the digits of an integer literal (4300 by
  default, 0 for none); \<open>max_depth\<close> is the number of containers that \<open>json.loads\<close> can
  enter, one inside the other, before the recursion limit is reached.
\<close>

record pylib =
  str_json :: "json \<Rightarrow> string"
  str_exn :: "exn \<Rightarrow> string"
  float_of_str :: "string \<Rightarrow> pyfloat option"
  int_max_str_digits :: nat
  max_depth :: nat

section \<open>\<open>json.loads\<close>\<close>

text \<open>
  The standard decoder in its default (strict) mode, as one pass over the text that scans
  tokens and hands each to a pushdown parser. It accepts the JSON grammar with Python's
  extensions \<open>NaN\<close>, \<open>Infinity\<close> and \<open>-Infinity\<close>; white space is space, tab, line feed
  and carriage return. The first failure in the text decides the exception:
  \<open>JSONDecodeError\<close> for text that is not JSON, \<open>ValueError\<close> for an integer literal with
  more digits than the limit, \<open>RecursionError\<close> for containers nested beyond the depth
  that can be entered. A \<open>\uXXXX\<close> escape above \<open>00FF\<close> names a character that
  \<^typ>\<open>string\<close> cannot hold: the result is then \<open>Unrepresentable\<close>.
\<close>

datatype tok = TLBrace | TRBrace | TLBrack | TRBrack | TColon | TComma | TVal json

datatype num_phase = NMinus | NZero | NInt | NDot | NFrac | NE | NESign | NExp

text \<open>
  \<open>LNum phase negative int_part frac frac_len exp_negative exp\<close> is a number being read,
  after the regular expression \<open>(-?(?:0|[1-9][0-9]*))(\.[0-9]+)?([eE][-+]?[0-9]+)?\<close>.
\<close>

datatype lexstate =
    LIdle
  | LStr string
  | LEsc string
  | LUni string nat nat
  | LNum num_phase bool nat nat nat bool nat
  | LLit string json

definition digit_val :: "char \<Rightarrow> nat option" where
  "digit_val c = (if 48 \<le> code c \<and> code c \<le> 57 then Some (code c - 48) else None)"

definition hex_val :: "char \<Rightarrow> nat option" where
  "hex_val c = (let n = code c in
     if 48 \<le> n \<and> n \<le> 57 then Some (n - 48)
     else if 65 \<le> n \<and> n \<le> 70 then Some (n - 55)
     else if 97 \<le> n \<and> n \<le> 102 then Some (n - 87)
     else None)"

definition too_long :: "pylib \<Rightarrow> nat \<Rightarrow> bool" where
  "too_long L ip =
     (int_max_str_digits L \<noteq> 0 \<and> int_max_str_digits L < length (str_nat ip))"

text \<open>
  The value of a number that ends here. Where the text stops in the middle of a fraction
  or an exponent, the decoder falls back to the number read before it, converts that, and
  then fails on the character that follows.
\<close>

definition finish_number ::
  "pylib \<Rightarrow> num_phase \<Rightarrow> bool \<Rightarrow> nat \<Rightarrow> nat \<Rightarrow> nat \<Rightarrow> bool \<Rightarrow> nat \<Rightarrow> exn + json" where
  "finish_number L ph neg ip fr fl eneg ex =
     (let sign = (if neg then - 1 else 1);
          mant = real ip + real fr / 10 ^ fl
      in if ph = NZero \<or> ph = NInt then
           (if too_long L ip then Inl ValueError else Inr (JInt (sign * int ip)))
         else if ph = NFrac then Inr (JFloat (binary64 (sign * mant)))
         else if ph = NExp then
           Inr (JFloat (binary64 (if eneg then sign * mant / 10 ^ ex else sign * mant * 10 ^ ex)))
         else if ph = NMinus then Inl JSONDecodeError
         else if fl = 0 \<and> too_long L ip then Inl ValueError
         else Inl JSONDecodeError)"

text \<open>\<open>d[k] = v\<close> on a dict: a present key keeps its place, a new key goes last.\<close>

definition dict_put :: "('k \<times> 'v) list \<Rightarrow> 'k \<Rightarrow> 'v \<Rightarrow> ('k \<times> 'v) list" where
  "dict_put d k v =
     (if k \<in> set (map fst d) then map (\<lambda>(k', v'). if k' = k then (k', v) else (k', v')) d
      else d @ [(k, v)])"

datatype frame =
    FList "json list"
  | FDict "(string \<times> json) list"
  | FDictK "(string \<times> json) list" string

datatype pmode = PValue | PFirstElem | PFirstKey | PKey | PColon string | PDone json

definition open_value :: "frame list \<Rightarrow> tok \<Rightarrow> (pmode \<times> frame list) option" where
  "open_value stack t =
     (case t of
        TVal v \<Rightarrow> Some (PDone v, stack)
      | TLBrack \<Rightarrow> Some (PFirstElem, FList [] # stack)
      | TLBrace \<Rightarrow> Some (PFirstKey, FDict [] # stack)
      | _ \<Rightarrow> None)"

fun parse_step :: "pmode \<Rightarrow> frame list \<Rightarrow> tok \<Rightarrow> (pmode \<times> frame list) option" where
  "parse_step PValue stack t = open_value stack t"
| "parse_step PFirstElem (FList items # stack) TRBrack = Some (PDone (JList []), stack)"
| "parse_step PFirstElem stack t = open_value stack t"
| "parse_step PFirstKey (FDict d # stack) TRBrace = Some (PDone (JDict d), stack)"
| "parse_step PFirstKey stack (TVal (JStr k)) = Some (PColon k, stack)"
| "parse_step PKey stack (TVal (JStr k)) = Some (PColon k, stack)"
| "parse_step (PColon k) (FDict d # stack) TColon = Some (PValue, FDictK d k # stack)"
| "parse_step (PDone v) (FList items # stack) TComma = Some (PValue, FList (v # items) # stack)"
| "parse_step (PDone v) (FList items # stack) TRBrack =
     Some (PDone (JList (rev (v # items))), stack)"
| "parse_step (PDone v) (FDictK d k # stack) TComma = Some (PKey, FDict (dict_put d k v) # stack)"
| "parse_step (PDone v) (FDictK d k # stack) TRBrace =
     Some (PDone (JDict (dict_put d k v)), stack)"
| "parse_step _ _ _ = None"

text \<open>
  A token handed to the parser. Entering a container where a value is expected takes one
  level of the depth that can be entered.
\<close>

definition accepts_value :: "pmode \<Rightarrow> bool" where
  "accepts_value m = (m = PValue \<or> m = PFirstElem)"

definition accepts_string :: "pmode \<Rightarrow> bool" where
  "accepts_string m = (accepts_value m \<or> m = PFirstKey \<or> m = PKey)"

definition feed :: "pylib \<Rightarrow> pmode \<Rightarrow> frame list \<Rightarrow> tok \<Rightarrow> exn + (pmode \<times> frame list)" where
  "feed L m stack t =
     (if (t = TLBrack \<or> t = TLBrace) \<and> accepts_value m \<and> max_depth L \<le> length stack
        then Inl RecursionError
      else (case parse_step m stack t of
              None \<Rightarrow> Inl JSONDecodeError
            | Some (m', stack') \<Rightarrow> Inr (m', stack')))"

type_synonym decoder = "lexstate \<times> pmode \<times> frame list"

definition emit :: "pylib \<Rightarrow> pmode \<Rightarrow> frame list \<Rightarrow> tok \<Rightarrow> exn + decoder" where
  "emit L m stack t =
     (case feed L m stack t of
        Inl e \<Rightarrow> Inl e
      | Inr (m', stack') \<Rightarrow> Inr (LIdle, m', stack'))"

text \<open>
  A character read between tokens. A string may start where a value or a key is expected,
  a number or a literal where a value is expected.
\<close>

definition idle_step :: "pylib \<Rightarrow> pmode \<Rightarrow> frame list \<Rightarrow> char \<Rightarrow> exn + decoder" where
  "idle_step L m stack c =
     (if c = CHR '' '' \<or> code c = 9 \<or> code c = 10 \<or> code c = 13 then Inr (LIdle, m, stack)
      else if c = CHR ''{'' then emit L m stack TLBrace
      else if c = CHR ''}'' then emit L m stack TRBrace
      else if c = CHR ''['' then emit L m stack TLBrack
      else if c = CHR '']'' then emit L m stack TRBrack
      else if c = CHR '':'' then emit L m stack TColon
      else if c = CHR '','' then emit L m stack TComma
      else if code c = 34 then
        (if accepts_string m then Inr (LStr [], m, stack) else Inl JSONDecodeError)
      else if \<not> accepts_value m then Inl JSONDecodeError
      else if c = CHR ''-'' then Inr (LNum NMinus True 0 0 0 False 0, m, stack)
      else if c = CHR ''0'' then Inr (LNum NZero False 0 0 0 False 0, m, stack)
      else if c = CHR ''t'' then Inr (LLit ''rue'' (JBool True), m, stack)
      else if c = CHR ''f'' then Inr (LLit ''alse'' (JBool False), m, stack)
      else if c = CHR ''n'' then Inr (LLit ''ull'' JNull, m, stack)
      else if c = CHR ''N'' then Inr (LLit ''aN'' (JFloat NaN), m, stack)
      else if c = CHR ''I'' then Inr (LLit ''nfinity'' (JFloat PosInf), m, stack)
      else (case digit_val c of
              Some d \<Rightarrow> Inr (LNum NInt False d 0 0 False 0, m, stack)
            | None \<Rightarrow> Inl JSONDecodeError))"

text \<open>A number that ends before \<open>c\<close>: its value goes to the parser, then \<open>c\<close> is read afresh.\<close>

definition end_number ::
  "pylib \<Rightarrow> num_phase \<Rightarrow> bool \<Rightarrow> nat \<Rightarrow> nat \<Rightarrow> nat \<Rightarrow> bool \<Rightarrow> nat \<Rightarrow> pmode \<Rightarrow> frame list \<Rightarrow> char
     \<Rightarrow> exn + decoder" where
  "end_number L ph neg ip fr fl eneg ex m stack c =
     (case finish_number L ph neg ip fr fl eneg ex of
        Inl e \<Rightarrow> Inl e
      | Inr v \<Rightarrow> (case feed L m stack (TVal v) of
                    Inl e \<Rightarrow> Inl e
                  | Inr (m', stack') \<Rightarrow> idle_step L m' stack' c))"

definition num_step ::
  "pylib \<Rightarrow> num_phase \<Rightarrow> bool \<Rightarrow> nat \<Rightarrow> nat \<Rightarrow> nat \<Rightarrow> bool \<Rightarrow> nat \<Rightarrow> pmode \<Rightarrow> frame list \<Rightarrow> char
     \<Rightarrow> exn + decoder" where
  "num_step L ph neg ip fr fl eneg ex m stack c =
     (let is_e = (c = CHR ''e'' \<or> c = CHR ''E''); dot = (c = CHR ''.'') in
      case ph of
        NMinus \<Rightarrow>
          (if c = CHR ''0'' then Inr (LNum NZero neg 0 0 0 False 0, m, stack)
           else if c = CHR ''I'' then Inr (LLit ''nfinity'' (JFloat NegInf), m, stack)
           else (case digit_val c of
                   Some d \<Rightarrow> Inr (LNum NInt neg d 0 0 False 0, m, stack)
                 | None \<Rightarrow> Inl JSONDecodeError))
      | NZero \<Rightarrow>
          (if dot then Inr (LNum NDot neg ip fr fl eneg ex, m, stack)
           else if is_e then Inr (LNum NE neg ip fr fl eneg ex, m, stack)
           else end_number L ph neg ip fr fl eneg ex m stack c)
      | NInt \<Rightarrow>
          (case digit_val c of
             Some d \<Rightarrow> Inr (LNum NInt neg (ip * 10 + d) fr fl eneg ex, m, stack)
           | None \<Rightarrow>
              (if dot then Inr (LNum NDot neg ip fr fl eneg ex, m, stack)
               else if is_e then Inr (LNum NE neg ip fr fl eneg ex, m, stack)
               else end_number L ph neg ip fr fl eneg ex m stack c))
      | NDot \<Rightarrow>
          (case digit_val c of
             Some d \<Rightarrow> Inr (LNum NFrac neg ip d 1 eneg ex, m, stack)
           | None \<Rightarrow> end_number L ph neg ip fr fl eneg ex m stack c)
      | NFrac \<Rightarrow>
          (case digit_val c of
             Some d \<Rightarrow> Inr (LNum NFrac neg ip (fr * 10 + d) (fl + 1) eneg ex, m, stack)
           | None \<Rightarrow>
              (if is_e then Inr (LNum NE neg ip fr fl eneg ex, m, stack)
               else end_number L ph neg ip fr fl eneg ex m stack c))
      | NE \<Rightarrow>
          (if c = CHR ''+'' then Inr (LNum NESign neg ip fr fl False 0, m, stack)
           else if c = CHR ''-'' then Inr (LNum NESign neg ip fr fl True 0, m, stack)
           else (case digit_val c of
                   Some d \<Rightarrow> Inr (LNum NExp neg ip fr fl False d, m, stack)
                 | None \<Rightarrow> end_number L ph neg ip fr fl eneg ex m stack c))
      | NESign \<Rightarrow>
          (case digit_val c of
             Some d \<Rightarrow> Inr (LNum NExp neg ip fr fl eneg d, m, stack)
           | None \<Rightarrow> end_number L ph neg ip fr fl eneg ex m stack c)
      | NExp \<Rightarrow>
          (case digit_val c of
             Some d \<Rightarrow> Inr (LNum NExp neg ip fr fl eneg (ex * 10 + d), m, stack)
           | None \<Rightarrow> end_number L ph neg ip fr fl eneg ex m stack c))"

definition esc_char :: "char \<Rightarrow> char option" where
  "esc_char c =
     (if code c = 34 \<or> code c = 92 \<or> c = CHR ''/'' then Some c
      else if c = CHR ''b'' then Some (char_of (8::nat))
      else if c = CHR ''f'' then Some (char_of (12::nat))
      else if c = CHR ''n'' then Some (char_of (10::nat))
      else if c = CHR ''r'' then Some (char_of (13::nat))
      else if c = CHR ''t'' then Some (char_of (9::nat))
      else None)"

fun decode_step :: "pylib \<Rightarrow> decoder \<Rightarrow> char \<Rightarrow> exn + decoder" where
  "decode_step L (LIdle, m, stack) c = idle_step L m stack c"
| "decode_step L (LStr acc, m, stack) c =
     (if code c = 34 then emit L m stack (TVal (JStr (rev acc)))
      else if code c = 92 then Inr (LEsc acc, m, stack)
      else if code c < 32 then Inl JSONDecodeError
      else Inr (LStr (c # acc), m, stack))"
| "decode_step L (LEsc acc, m, stack) c =
     (if c = CHR ''u'' then Inr (LUni acc 0 0, m, stack)
      else (case esc_char c of
              Some d \<Rightarrow> Inr (LStr (d # acc), m, stack)
            | None \<Rightarrow> Inl JSONDecodeError))"
| "decode_step L (LUni acc k v, m, stack) c =
     (case hex_val c of
        None \<Rightarrow> Inl JSONDecodeError
      | Some h \<Rightarrow>
          (if k < 3 then Inr (LUni acc (k + 1) (v * 16 + h), m, stack)
           else if v * 16 + h < 256 then Inr (LStr (char_of (v * 16 + h) # acc), m, stack)
           else Inl Unrepresentable))"
| "decode_step L (LNum ph neg ip fr fl eneg ex, m, stack) c =
     num_step L ph neg ip fr fl eneg ex m stack c"
| "decode_step L (LLit rest v, m, stack) c =
     (case rest of
        [] \<Rightarrow> Inl JSONDecodeError
      | r # rs \<Rightarrow>
          (if c \<noteq> r then Inl JSONDecodeError
           else if rs = [] then emit L m stack (TVal v)
           else Inr (LLit rs v, m, stack)))"

text \<open>The end of the text: a number still being read ends here, and one value must be complete.\<close>

definition decode_end :: "pylib \<Rightarrow> decoder \<Rightarrow> exn + json" where
  "decode_end L st =
     (case (case st of
              (LIdle, m, stack) \<Rightarrow> Inr (m, stack)
            | (LNum ph neg ip fr fl eneg ex, m, stack) \<Rightarrow>
                (case finish_number L ph neg ip fr fl eneg ex of
                   Inl e \<Rightarrow> Inl e
                 | Inr v \<Rightarrow> feed L m stack (TVal v))
            | _ \<Rightarrow> Inl JSONDecodeError) of
        Inl e \<Rightarrow> Inl e
      | Inr (PDone v, []) \<Rightarrow> Inr v
      | Inr _ \<Rightarrow> Inl JSONDecodeError)"

fun decode_from :: "pylib \<Rightarrow> decoder \<Rightarrow> string \<Rightarrow> exn + json" where
  "decode_from L st [] = decode_end L st"
| "decode_from L st (c # cs) =
     (case decode_step L st c of
        Inl e \<Rightarrow> Inl e
      | Inr st' \<Rightarrow> decode_from L st' cs)"

definition json_loads :: "pylib \<Rightarrow> string \<Rightarrow> exn + json" where
  "json_loads L s = decode_from L (LIdle, PValue, []) s"

section \<open>Model-query client (backend/openrouter.py)\<close>

subsection \<open>\<open>query_model\<close>\<close>

text \<open>
  What one HTTP attempt can do: answer with a well-formed body, whose message carries
  \<open>content\<close> and \<open>reasoning_details\<close> (\<open>JNull\<close> for \<open>None\<close> or a missing key); fail
  \<open>raise_for_status\<close> with a status code; time out; or raise anything else (a connection
  error, a body of another shape). The upstream service is an input of the model: a call
  is given the outcome of each of its attempts, by attempt number.
\<close>

datatype attempt =
    Success json json
  | HTTPStatusError nat
  | TimeoutException
  | OtherException

record reply =
  content :: json
  reasoning_details :: json

function query_model_from :: "nat \<Rightarrow> (nat \<Rightarrow> attempt) \<Rightarrow> nat \<Rightarrow> reply option" where
  "query_model_from max_retries post attempt =
     (if max_retries \<le> attempt then None
      else case post attempt of
        Success c r \<Rightarrow> Some \<lparr> content = c, reasoning_details = r \<rparr>
      | HTTPStatusError status_code \<Rightarrow>
          (if status_code = 429 \<and> attempt + 1 < max_retries
             then query_model_from max_retries post (attempt + 1)
           else if status_code = 402 then None
           else if status_code = 404 then None
           else if attempt + 1 < max_retries
             then query_model_from max_retries post (attempt + 1)
           else None)
      | TimeoutException \<Rightarrow>
          (if attempt + 1 < max_retries
             then query_model_from max_retries post (attempt + 1)
           else None)
      | OtherException \<Rightarrow>
          (if attempt + 1 < max_retries
             then query_model_from max_retries post (attempt + 1)
           else None))"
  by pat_completeness auto
termination
  by (relation "measure (\<lambda>(max_retries, post, attempt). max_retries - attempt)") auto

definition query_model :: "nat \<Rightarrow> (nat \<Rightarrow> attempt) \<Rightarrow> reply option" where
  "query_model max_retries post = query_model_from max_retries post 0"

subsection \<open>\<open>query_models_parallel\<close>\<close>

text \<open>
  One task per position of \<open>models\<close> (with the default \<open>max_retries = 3\<close>), gathered in
  order; the result is the dict \<open>{model: response for model, response in zip(...)}\<close>.
  \<open>posts i\<close> gives the attempts of the call at position \<open>i\<close>.
\<close>

definition dict_of :: "('k \<times> 'v) list \<Rightarrow> ('k \<times> 'v) list" where
  "dict_of kvs = foldl (\<lambda>d (k, v). dict_put d k v) [] kvs"

definition query_models_parallel ::
  "string list \<Rightarrow> (nat \<Rightarrow> nat \<Rightarrow> attempt) \<Rightarrow> (string \<times> reply option) list" where
  "query_models_parallel models posts =
     (let responses = map (\<lambda>i. query_model 3 (posts i)) [0..<length models]
      in dict_of (zip models responses))"

subsection \<open>\<open>query_model_json\<close>\<close>

definition backtick :: char where
  "backtick = char_of (96::nat)"

fun contains :: "string \<Rightarrow> string \<Rightarrow> bool" where
  "contains p [] = (p = [])"
| "contains p (c # cs) = (take (length p) (c # cs) = p \<or> contains p cs)"

text \<open>
  The first pattern is six backticks and has no group: \<open>re.search\<close> finds it wherever six
  backticks stand in a row, and \<open>json_match.group(1)\<close> then raises \<open>IndexError\<close>.
\<close>

definition fence_search :: "string \<Rightarrow> bool" where
  "fence_search s = contains (replicate 6 backtick) s"

text \<open>
  The second pattern is \<open>\{[^{}]*(?:\{[^{}]*\}[^{}]*)*\}\<close> with \<open>re.DOTALL\<close>: an outer pair
  of braces around text that holds brace pairs one level deep. \<open>brace_scan inner s\<close> reads on
  after the opening brace and counts the characters up to the closing one; \<open>inner\<close> tells
  whether an inner pair is open. \<open>brace_search\<close> is the leftmost match, \<open>group(0)\<close>.
\<close>

fun brace_scan :: "bool \<Rightarrow> string \<Rightarrow> nat option" where
  "brace_scan inner [] = None"
| "brace_scan inner (c # cs) =
     (if c = CHR ''{'' then (if inner then None else map_option Suc (brace_scan True cs))
      else if c = CHR ''}'' then (if inner then map_option Suc (brace_scan False cs) else Some 1)
      else map_option Suc (brace_scan inner cs))"

fun brace_search :: "string \<Rightarrow> string option" where
  "brace_search [] = None"
| "brace_search (c # cs) =
     (if c = CHR ''{'' then
        (case brace_scan False cs of
           Some n \<Rightarrow> Some (c # take n cs)
         | None \<Rightarrow> brace_search cs)
      else brace_search cs)"

definition default_rankings3 :: json where
  "default_rankings3 = JList [JStr ''agent_0'', JStr ''agent_1'', JStr ''agent_2'']"

text \<open>The dict returned for a \<open>None\<close> response and for a \<open>None\<close> content.\<close>

definition fallback_api :: "string \<Rightarrow> json" where
  "fallback_api why =
     JDict [(''rankings'', default_rankings3),
            (''scores'', JDict []),
            (''rationale'', JStr why),
            (''final_answer'', JStr ''Unable to generate synthesis due to API rate limits''),
            (''confidence'', JFloat (binary64 0.3)),
            (''risks'', JList []),
            (''citations'', JList []),
            (''fallback'', JBool True)]"

text \<open>The dict returned when no JSON is found in the text, or the content has another type.\<close>

definition fallback_parse :: "string \<Rightarrow> json" where
  "fallback_parse why =
     JDict [(''rankings'', default_rankings3),
            (''scores'', JDict []),
            (''rationale'', JStr why),
            (''fallback'', JBool True)]"

definition type_name :: "json \<Rightarrow> string" where
  "type_name v =
     (case v of
        JNull \<Rightarrow> ''NoneType'' | JBool _ \<Rightarrow> ''bool'' | JInt _ \<Rightarrow> ''int'' | JFloat _ \<Rightarrow> ''float''
      | JStr _ \<Rightarrow> ''str'' | JList _ \<Rightarrow> ''list'' | JDict _ \<Rightarrow> ''dict'')"

text \<open>
  The recovery chain on a text content. Each \<open>except\<close> clause names \<open>JSONDecodeError\<close>
  alone: any other exception of \<open>json.loads\<close> leaves the function.
\<close>

definition parse_content :: "pylib \<Rightarrow> string \<Rightarrow> exn + json" where
  "parse_content L s =
     (case json_loads L s of
        Inr v \<Rightarrow> Inr v
      | Inl e \<Rightarrow>
          (if e \<noteq> JSONDecodeError then Inl e
           else if fence_search s then Inl IndexError
           else
             (case (case brace_search s of
                      Some m \<Rightarrow> json_loads L m
                    | None \<Rightarrow> Inl JSONDecodeError) of
                Inr v \<Rightarrow> Inr v
              | Inl e' \<Rightarrow>
                  (if e' \<noteq> JSONDecodeError then Inl e'
                   else Inr (fallback_parse
                              (''Failed to parse JSON - text response: '' @ take 200 s))))))"

text \<open>
  \<open>post\<close> gives the attempts of the one underlying call. The prompt is not an argument:
  the replies are inputs of the model.
\<close>

definition query_model_json :: "pylib \<Rightarrow> (nat \<Rightarrow> attempt) \<Rightarrow> exn + json" where
  "query_model_json L post =
     (case query_model 3 post of
        None \<Rightarrow> Inr (fallback_api ''API error - using default ranking'')
      | Some resp \<Rightarrow>
          (case content resp of
             JNull \<Rightarrow> Inr (fallback_api ''Empty response - using default ranking'')
           | JDict d \<Rightarrow> Inr (JDict d)
           | JStr s \<Rightarrow> parse_content L s
           | v \<Rightarrow>
               Inr (fallback_parse
                     (''Unexpected type <class '' @ [char_of (39::nat)] @ type_name v
                        @ [char_of (39::nat)] @ ''> - using default''))))"

section \<open>Schema validation (pydantic, lax mode)\<close>

fun sequence :: "(exn + 'a) list \<Rightarrow> exn + 'a list" where
  "sequence [] = Inr []"
| "sequence (x # xs) =
     (case x of
        Inl e \<Rightarrow> Inl e
      | Inr v \<Rightarrow> (case sequence xs of Inl e \<Rightarrow> Inl e | Inr vs \<Rightarrow> Inr (v # vs)))"

definition validate_str :: "json \<Rightarrow> exn + string" where
  "validate_str v = (case v of JStr s \<Rightarrow> Inr s | _ \<Rightarrow> Inl ValidationError)"

text \<open>
  \<open>float\<close>: an \<open>int\<close> is converted to the nearest float and rejected when it lies beyond
  the finite floats.
\<close>

definition validate_float :: "pylib \<Rightarrow> json \<Rightarrow> exn + pyfloat" where
  "validate_float L v =
     (case v of
        JInt i \<Rightarrow>
          (case binary64 (of_int i) of Fin r \<Rightarrow> Inr (Fin r) | _ \<Rightarrow> Inl ValidationError)
      | JFloat f \<Rightarrow> Inr f
      | JBool b \<Rightarrow> Inr (Fin (if b then 1 else 0))
      | JStr s \<Rightarrow> (case float_of_str L s of Some f \<Rightarrow> Inr f | None \<Rightarrow> Inl ValidationError)
      | _ \<Rightarrow> Inl ValidationError)"

text \<open>\<open>float = Field(ge=0.0, le=1.0)\<close>.\<close>

definition validate_unit :: "pylib \<Rightarrow> json \<Rightarrow> exn + real" where
  "validate_unit L v =
     (case validate_float L v of
        Inl e \<Rightarrow> Inl e
      | Inr (Fin r) \<Rightarrow> (if 0 \<le> r \<and> r \<le> 1 then Inr r else Inl ValidationError)
      | Inr _ \<Rightarrow> Inl ValidationError)"

text \<open>\<open>List[str]\<close>.\<close>

definition validate_str_list :: "json \<Rightarrow> exn + string list" where
  "validate_str_list v =
     (case v of JList xs \<Rightarrow> sequence (map validate_str xs) | _ \<Rightarrow> Inl ValidationError)"

text \<open>\<open>Dict[str, float]\<close> and \<open>Dict[str, Dict[str, float]]\<close>.\<close>

definition validate_float_dict :: "pylib \<Rightarrow> json \<Rightarrow> exn + (string \<times> pyfloat) list" where
  "validate_float_dict L v =
     (case v of
        JDict d \<Rightarrow>
          (case sequence (map (\<lambda>(k, x). validate_float L x) d) of
             Inl e \<Rightarrow> Inl e
           | Inr fs \<Rightarrow> Inr (zip (map fst d) fs))
      | _ \<Rightarrow> Inl ValidationError)"

definition validate_scores ::
  "pylib \<Rightarrow> json \<Rightarrow> exn + (string \<times> (string \<times> pyfloat) list) list" where
  "validate_scores L v =
     (case v of
        JDict d \<Rightarrow>
          (case sequence (map (\<lambda>(k, x). validate_float_dict L x) d) of
             Inl e \<Rightarrow> Inl e
           | Inr ds \<Rightarrow> Inr (zip (map fst d) ds))
      | _ \<Rightarrow> Inl ValidationError)"

text \<open>\<open>JudgeEvaluation(judge_id=..., model=..., rankings=..., scores=..., rationale=...)\<close>.\<close>

definition make_JudgeEvaluation ::
  "pylib \<Rightarrow> string \<Rightarrow> string \<Rightarrow> json \<Rightarrow> json \<Rightarrow> json \<Rightarrow> exn + JudgeEvaluation" where
  "make_JudgeEvaluation L jid m rk sc ra =
     (case (validate_str_list rk, validate_scores L sc, validate_str ra) of
        (Inr rk', Inr sc', Inr ra') \<Rightarrow>
          Inr \<lparr> judge_id = jid, judge_model = m, rankings = rk', scores = sc', rationale = ra' \<rparr>
      | _ \<Rightarrow> Inl ValidationError)"

text \<open>
  \<open>Risk(**r)\<close> and \<open>Citation(**c)\<close>: the argument of \<open>**\<close> must be a mapping (else
  \<open>TypeError\<close>); its entries are the keyword arguments, and entries the schema does not name
  are ignored.
\<close>

definition make_Risk :: "json \<Rightarrow> exn + Risk" where
  "make_Risk r =
     (case r of
        JDict d \<Rightarrow>
          (case (map_of d ''category'', map_of d ''severity'', map_of d ''description'') of
             (Some c, Some sv, Some ds) \<Rightarrow>
               (case (validate_str c, validate_str sv, validate_str ds) of
                  (Inr c', Inr sv', Inr ds') \<Rightarrow>
                    Inr \<lparr> category = c', severity = sv', description = ds' \<rparr>
                | _ \<Rightarrow> Inl ValidationError)
           | _ \<Rightarrow> Inl ValidationError)
      | _ \<Rightarrow> Inl TypeError)"

definition make_Citation :: "pylib \<Rightarrow> json \<Rightarrow> exn + Citation" where
  "make_Citation L c =
     (case c of
        JDict d \<Rightarrow>
          (case (map_of d ''source'', map_of d ''excerpt'', map_of d ''confidence'') of
             (Some so, Some ex, Some co) \<Rightarrow>
               (case (validate_str so, validate_str ex, validate_unit L co) of
                  (Inr so', Inr ex', Inr co') \<Rightarrow>
                    Inr \<lparr> source = so', excerpt = ex', cite_confidence = co' \<rparr>
                | _ \<Rightarrow> Inl ValidationError)
           | _ \<Rightarrow> Inl ValidationError)
      | _ \<Rightarrow> Inl TypeError)"

subsection \<open>Dict and iteration helpers\<close>

text \<open>\<open>d.get(k, default)\<close>, \<open>k in d\<close>, truth value, and \<open>for x in v\<close>.\<close>

definition dict_get :: "(string \<times> json) list \<Rightarrow> string \<Rightarrow> json \<Rightarrow> json" where
  "dict_get d k dflt = (case map_of d k of Some v \<Rightarrow> v | None \<Rightarrow> dflt)"

definition has_key :: "(string \<times> json) list \<Rightarrow> string \<Rightarrow> bool" where
  "has_key d k = (k \<in> set (map fst d))"

definition truthy :: "json \<Rightarrow> bool" where
  "truthy v =
     (case v of
        JNull \<Rightarrow> False
      | JBool b \<Rightarrow> b
      | JInt i \<Rightarrow> i \<noteq> 0
      | JFloat f \<Rightarrow> f \<noteq> Fin 0
      | JStr s \<Rightarrow> s \<noteq> []
      | JList xs \<Rightarrow> xs \<noteq> []
      | JDict d \<Rightarrow> d \<noteq> [])"

definition iterate :: "json \<Rightarrow> exn + json list" where
  "iterate v =
     (case v of
        JList xs \<Rightarrow> Inr xs
      | JDict d \<Rightarrow> Inr (map (\<lambda>(k, x). JStr k) d)
      | JStr s \<Rightarrow> Inr (map (\<lambda>c. JStr [c]) s)
      | _ \<Rightarrow> Inl TypeError)"

text \<open>\<open>round(x, n)\<close>: to \<open>n\<close> decimals, a tie going to the even neighbour.\<close>

definition py_round :: "real \<Rightarrow> nat \<Rightarrow> real" where
  "py_round x n = of_int (round_half_even (x * 10 ^ n)) / 10 ^ n"

section \<open>Stage 1 (backend/agents/generator.py)\<close>

definition agent_name :: "nat \<Rightarrow> string" where
  "agent_name i = ''agent_'' @ str_nat i"

text \<open>
  \<open>responses\<close> is the dict of \<open>query_models_parallel\<close>; \<open>zip(GENERATOR_MODELS, responses)\<close>
  iterates over it, which yields its keys. \<open>utcnow i\<close> is the clock reading taken for the
  response at position \<open>i\<close>.
\<close>

definition stage1_generate_answers ::
  "string list \<Rightarrow> (nat \<Rightarrow> nat \<Rightarrow> attempt) \<Rightarrow> (nat \<Rightarrow> datetime) \<Rightarrow> string \<Rightarrow> AgentResponse list" where
  "stage1_generate_answers generator_models posts utcnow q =
     (let responses = query_models_parallel generator_models posts
      in map (\<lambda>(i, (m, r)).
                \<lparr> agent_id = agent_name i, agent_model = m, response = r,
                  agent_timestamp = utcnow i \<rparr>)
             (enumerate 0 (zip generator_models (map fst responses))))"

section \<open>Stage 2 (backend/judges/evaluator.py)\<close>

definition judge_name :: "nat \<Rightarrow> string" where
  "judge_name i = ''judge_'' @ str_nat i"

definition CRITERIA :: "string list" where
  "CRITERIA = [''factual_accuracy'', ''completeness'', ''clarity'', ''safety'',
               ''citation_quality'']"

definition default_rankings :: "nat \<Rightarrow> string list" where
  "default_rankings n = map agent_name [0..<n]"

definition neutral_scores :: "nat \<Rightarrow> (string \<times> (string \<times> pyfloat) list) list" where
  "neutral_scores n = map (\<lambda>j. (agent_name j, map (\<lambda>c. (c, Fin 5)) CRITERIA)) [0..<n]"

text \<open>The test \<open>isinstance(output, dict) and "rankings" in output\<close>.\<close>

definition has_rankings :: "json \<Rightarrow> bool" where
  "has_rankings out = (case out of JDict d \<Rightarrow> has_key d ''rankings'' | _ \<Rightarrow> False)"

text \<open>
  The body of the loop for judge \<open>i\<close> with model \<open>m\<close> and output \<open>out\<close>, in a run with
  \<open>n\<close> agent responses: the \<open>if\<close> branch, the \<open>else\<close> branch, and the \<open>except\<close> branch.
\<close>

definition structure_evaluation ::
  "pylib \<Rightarrow> nat \<Rightarrow> nat \<Rightarrow> string \<Rightarrow> json \<Rightarrow> JudgeEvaluation" where
  "structure_evaluation L n i m out =
     (case (case out of
              JDict d \<Rightarrow> (if has_key d ''rankings'' then Some d else None)
            | _ \<Rightarrow> None) of
        Some d \<Rightarrow>
          (case make_JudgeEvaluation L (judge_name i) m
                  (dict_get d ''rankings'' JNull)
                  (dict_get d ''scores'' (JDict []))
                  (dict_get d ''rationale'' (JStr ''No rationale provided'')) of
             Inr ev \<Rightarrow> ev
           | Inl e \<Rightarrow>
               \<lparr> judge_id = judge_name i, judge_model = m,
                 rankings = default_rankings n, scores = [],
                 rationale = ''Error processing judge response: '' @ str_exn L e \<rparr>)
      | None \<Rightarrow>
          \<lparr> judge_id = judge_name i, judge_model = m,
            rankings = default_rankings n, scores = neutral_scores n,
            rationale = ''Fallback ranking due to invalid JSON response: ''
                          @ take 100 (str_json L out) \<rparr>)"

text \<open>
  The judges are queried first, all of them (\<open>asyncio.gather\<close>); an exception of one call
  leaves the stage before the loop. \<open>posts i\<close> gives the attempts of the call to judge \<open>i\<close>.
\<close>

definition judge_outputs ::
  "pylib \<Rightarrow> string list \<Rightarrow> (nat \<Rightarrow> nat \<Rightarrow> attempt) \<Rightarrow> exn + json list" where
  "judge_outputs L judge_models posts =
     sequence (map (\<lambda>i. query_model_json L (posts i)) [0..<length judge_models])"

definition stage2_judge_evaluation ::
  "pylib \<Rightarrow> string list \<Rightarrow> (nat \<Rightarrow> nat \<Rightarrow> attempt) \<Rightarrow> string \<Rightarrow> AgentResponse list
     \<Rightarrow> exn + JudgeEvaluation list" where
  "stage2_judge_evaluation L judge_models posts q agents =
     (case judge_outputs L judge_models posts of
        Inl e \<Rightarrow> Inl e
      | Inr outs \<Rightarrow>
          Inr (map (\<lambda>(i, (m, out)). structure_evaluation L (length agents) i m out)
                   (enumerate 0 (zip judge_models outs))))"

section \<open>Stage 3 (backend/agents/synthesizer.py)\<close>

text \<open>
  \<open>synthesis\<close> is what \<open>query_model_json\<close> returned for the chairman; \<open>now\<close> is the loop
  time read after it, \<open>stamp\<close> the \<open>utcnow()\<close> reading and \<open>uuid\<close> the \<open>uuid4()\<close> drawn for
  the decision.
\<close>

definition build_decision ::
  "pylib \<Rightarrow> json \<Rightarrow> real \<Rightarrow> datetime \<Rightarrow> string \<Rightarrow> string \<Rightarrow> AgentResponse list
     \<Rightarrow> JudgeEvaluation list \<Rightarrow> real \<Rightarrow> exn + DecisionObject" where
  "build_decision L synthesis now stamp uuid q agents evals start_time =
     (let processing_time = now - start_time in
      case synthesis of
        JDict d \<Rightarrow>
          (if truthy (dict_get d ''fallback'' JNull) then
             (case index0 agents of
                Inl e \<Rightarrow> Inl e
              | Inr first \<Rightarrow>
                  Inr \<lparr> question = q,
                        final_answer =
                          ''Based on the responses: '' @ take 200 (response first) @ ''...'',
                        confidence = 0.5,
                        agent_responses = agents,
                        judge_evaluations = evals,
                        risks = [\<lparr> category = ''api_error'', severity = ''medium'',
                                   description = ''Chairman synthesis failed, using fallback'' \<rparr>],
                        citations = [],
                        timestamp = stamp,
                        audit_id = uuid,
                        processing_time_seconds = Some (py_round processing_time 2) \<rparr>)
           else
             (case (case iterate (dict_get d ''risks'' (JList [])) of
                      Inl e \<Rightarrow> Inl e
                    | Inr rs \<Rightarrow> sequence (map make_Risk rs)) of
                Inl e \<Rightarrow> Inl e
              | Inr risks' \<Rightarrow>
                 (case (case iterate (dict_get d ''citations'' (JList [])) of
                          Inl e \<Rightarrow> Inl e
                        | Inr cs \<Rightarrow> sequence (map (make_Citation L) cs)) of
                    Inl e \<Rightarrow> Inl e
                  | Inr citations' \<Rightarrow>
                     (case (validate_str (dict_get d ''final_answer'' (JStr ''No answer generated'')),
                            validate_unit L (dict_get d ''confidence'' (JFloat (Fin 0.5)))) of
                        (Inr answer, Inr conf) \<Rightarrow>
                          Inr \<lparr> question = q,
                                final_answer = answer,
                                confidence = conf,
                                agent_responses = agents,
                                judge_evaluations = evals,
                                risks = risks',
                                citations = citations',
                                timestamp = stamp,
                                audit_id = uuid,
                                processing_time_seconds = Some (py_round processing_time 2) \<rparr>
                      | _ \<Rightarrow> Inl ValidationError))))
      | _ \<Rightarrow> Inl AttributeError)"

definition stage3_synthesize_decision ::
  "pylib \<Rightarrow> (nat \<Rightarrow> attempt) \<Rightarrow> real \<Rightarrow> datetime \<Rightarrow> string \<Rightarrow> string \<Rightarrow> AgentResponse list
     \<Rightarrow> JudgeEvaluation list \<Rightarrow> real \<Rightarrow> exn + DecisionObject" where
  "stage3_synthesize_decision L post now stamp uuid q agents evals start_time =
     (case query_model_json L post of
        Inl e \<Rightarrow> Inl e
      | Inr synthesis_data \<Rightarrow> build_decision L synthesis_data now stamp uuid q agents evals start_time)"

section \<open>Audit store (backend/audit/logger.py)\<close>

text \<open>
  The table \<open>audit_log\<close> is the list of its rows in insertion order. A row keeps the
  values that \<open>log_decision\<close> serialises, unserialised. \<open>audit_id\<close> is the primary key:
  an \<open>INSERT\<close> of a key that the table holds raises \<open>sqlite3.IntegrityError\<close> and leaves
  the table as it was. Failures of the storage medium are not modelled.
\<close>

record audit_row =
  row_audit_id :: string
  row_timestamp :: datetime
  row_question :: string
  row_final_answer :: string
  row_confidence :: real
  row_agent_responses :: "AgentResponse list"
  row_judge_evaluations :: "JudgeEvaluation list"
  row_risks :: "Risk list"
  row_citations :: "Citation list"
  safety_passed :: bool
  safety_violations :: "violation list"
  safety_warnings :: "warning list"
  row_processing_time_seconds :: "real option"

type_synonym audit_log = "audit_row list"

definition audit_row_of :: "DecisionObject \<Rightarrow> SafetyResult \<Rightarrow> audit_row" where
  "audit_row_of d sr =
     \<lparr> row_audit_id = audit_id d,
       row_timestamp = timestamp d,
       row_question = question d,
       row_final_answer = final_answer d,
       row_confidence = confidence d,
       row_agent_responses = agent_responses d,
       row_judge_evaluations = judge_evaluations d,
       row_risks = risks d,
       row_citations = citations d,
       safety_passed = passed sr,
       safety_violations = violations sr,
       safety_warnings = warnings sr,
       row_processing_time_seconds = processing_time_seconds d \<rparr>"

definition log_decision ::
  "audit_log \<Rightarrow> DecisionObject \<Rightarrow> SafetyResult \<Rightarrow> audit_log \<times> (exn + string)" where
  "log_decision db d sr =
     (if audit_id d \<in> set (map row_audit_id db) then (db, Inl IntegrityError)
      else (db @ [audit_row_of d sr], Inr (audit_id d)))"

definition get_decision :: "audit_log \<Rightarrow> string \<Rightarrow> audit_row option" where
  "get_decision db key = find (\<lambda>r. row_audit_id r = key) db"

text \<open>SQL \<open>AVG\<close> over the non-\<open>NULL\<close> values of a column: \<open>NULL\<close> when there is none.\<close>

definition sql_avg :: "real list \<Rightarrow> real option" where
  "sql_avg xs = (if xs = [] then None else Some (sum_list xs / real (length xs)))"

datatype stat = SInt int | SFloat real

text \<open>The returned dict, as the list of its entries.\<close>

definition get_statistics :: "audit_log \<Rightarrow> (string \<times> stat) list" where
  "get_statistics db =
     (let total = int (length db);
          avg_conf = sql_avg (map row_confidence db);
          passed_count = int (length (filter (\<lambda>r. safety_passed r) db));
          rejected_count = int (length (filter (\<lambda>r. \<not> safety_passed r) db));
          avg_time = sql_avg (List.map_filter row_processing_time_seconds db)
      in if total = 0 then
           [(''total_decisions'', SInt 0),
            (''avg_confidence'', SFloat 0.0),
            (''pass_rate'', SFloat 0.0),
            (''avg_processing_time'', SFloat 0.0)]
         else
           [(''total_decisions'', SInt total),
            (''passed_decisions'', SInt passed_count),
            (''rejected_decisions'', SInt rejected_count),
            (''pass_rate'',
               SFloat (if total > 0 then real_of_int passed_count / real_of_int total else 0.0)),
            (''avg_confidence'',
               SFloat (case avg_conf of
                         None \<Rightarrow> 0.0
                       | Some a \<Rightarrow> if a \<noteq> 0 then py_round a 3 else 0.0)),
            (''avg_processing_time_seconds'',
               SFloat (case avg_time of
                         None \<Rightarrow> 0.0
                       | Some a \<Rightarrow> if a \<noteq> 0 then py_round a 2 else 0.0))])"

section \<open>Pipeline (backend/main.py, \<open>deliberate\<close>)\<close>

record config =
  GENERATOR_MODELS :: "string list"
  JUDGE_MODELS :: "string list"

text \<open>
  Everything one run reads from outside: the outcomes of the upstream calls, the clock
  readings and the identifier drawn by \<open>uuid4()\<close>.
\<close>

record environment =
  generator_posts :: "nat \<Rightarrow> nat \<Rightarrow> attempt"
  judge_posts :: "nat \<Rightarrow> nat \<Rightarrow> attempt"
  chairman_post :: "nat \<Rightarrow> attempt"
  generator_utcnow :: "nat \<Rightarrow> datetime"
  decision_utcnow :: datetime
  uuid4 :: string
  loop_time_start :: real
  loop_time_stage3 :: real
  loop_time_end :: real

text \<open>
  \<open>decision\<close> is the \<open>decision_dict\<close> of an approved run: the decision and, when there
  are warnings, its added \<open>safety_warnings\<close> entry.
\<close>

record CouncilResponse =
  status :: string
  decision :: "(DecisionObject \<times> warning list option) option"
  response_audit_id :: string
  reason :: "string option"
  response_processing_time_seconds :: "real option"

text \<open>The body of the \<open>try\<close> block: the table afterwards, and the value returned or raised.\<close>

definition deliberate_try ::
  "pylib \<Rightarrow> config \<Rightarrow> environment \<Rightarrow> audit_log \<Rightarrow> string \<Rightarrow> audit_log \<times> (exn + CouncilResponse)" where
  "deliberate_try L cfg env db q =
     (if q = [] \<or> length (strip q) < 10 then
        (db, Inl (HTTPException 400 ''Question must be at least 10 characters long''))
      else
        (let agents = stage1_generate_answers (GENERATOR_MODELS cfg) (generator_posts env)
                        (generator_utcnow env) q
         in case stage2_judge_evaluation L (JUDGE_MODELS cfg) (judge_posts env) q agents of
              Inl e \<Rightarrow> (db, Inl e)
            | Inr evals \<Rightarrow>
               (case stage3_synthesize_decision L (chairman_post env) (loop_time_stage3 env)
                       (decision_utcnow env) (uuid4 env) q agents evals (loop_time_start env) of
                  Inl e \<Rightarrow> (db, Inl e)
                | Inr d \<Rightarrow>
                   (case safety_check d of
                      Inl e \<Rightarrow> (db, Inl e)
                    | Inr safety_result \<Rightarrow>
                       (case log_decision db d safety_result of
                          (db', Inl e) \<Rightarrow> (db', Inl e)
                        | (db', Inr key) \<Rightarrow>
                           (let processing_time = loop_time_end env - loop_time_start env
                            in if \<not> passed safety_result then
                                 (db', Inr \<lparr> status = ''rejected'',
                                            decision = None,
                                            response_audit_id = audit_id d,
                                            reason = Some (''Safety gate failed: ''
                                              @ str_nat (length (violations safety_result))
                                              @ '' violation(s) detected''),
                                            response_processing_time_seconds =
                                              Some (py_round processing_time 2) \<rparr>)
                               else
                                 (db', Inr \<lparr> status = ''approved'',
                                            decision = Some (d,
                                              if warnings safety_result \<noteq> []
                                              then Some (warnings safety_result) else None),
                                            response_audit_id = audit_id d,
                                            reason = None,
                                            response_processing_time_seconds =
                                              Some (py_round processing_time 2) \<rparr>)))))))"

text \<open>
  The two handlers: \<open>except ValueError\<close> answers 400, \<open>except Exception\<close> answers 500.
  Every exception of the body is an \<open>Exception\<close>, the \<open>HTTPException\<close> raised by the
  validation of the question included. The marker \<open>Unrepresentable\<close> passes through.
\<close>

definition deliberate ::
  "pylib \<Rightarrow> config \<Rightarrow> environment \<Rightarrow> audit_log \<Rightarrow> string \<Rightarrow> audit_log \<times> (exn + CouncilResponse)" where
  "deliberate L cfg env db q =
     (case deliberate_try L cfg env db q of
        (db', Inr r) \<Rightarrow> (db', Inr r)
      | (db', Inl e) \<Rightarrow>
          (if e = Unrepresentable then (db', Inl e)
           else if is_ValueError e then (db', Inl (HTTPException 400 (str_exn L e)))
           else (db', Inl (HTTPException 500 (''Internal server error: '' @ str_exn L e)))))"

section \<open>Example inputs\<close>

text \<open>Concrete values of the library parameters, for the runs evaluated below.\<close>

definition example_lib :: pylib where
  "example_lib =
     \<lparr> str_json = (\<lambda>v. ''<value>''), str_exn = (\<lambda>e. ''<error>''),
       float_of_str = (\<lambda>s. None), int_max_str_digits = 4300, max_depth = 900 \<rparr>"

definition warning_only_decision :: DecisionObject where
  "warning_only_decision =
     \<lparr> question = ''What is the capital of France?'',
       final_answer = ''Paris, most likely.'',
       confidence = 0.25,
       agent_responses = [],
       judge_evaluations = [],
       risks = [],
       citations = [],
       timestamp = 0,
       audit_id = ''run-1'',
       processing_time_seconds = None \<rparr>"

definition clean_decision :: DecisionObject where
  "clean_decision = warning_only_decision \<lparr> confidence := 0.75 \<rparr>"

text \<open>A decision whose two judge evaluations carry empty rankings lists.\<close>

definition empty_rankings_decision :: DecisionObject where
  "empty_rankings_decision =
     warning_only_decision
       \<lparr> judge_evaluations :=
           [\<lparr> judge_id = ''judge_0'', judge_model = ''j0'', rankings = [], scores = [],
               rationale = ''none'' \<rparr>,
            \<lparr> judge_id = ''judge_1'', judge_model = ''j1'', rankings = [], scores = [],
               rationale = ''none'' \<rparr>] \<rparr>"

text \<open>An upstream call whose reply is six backticks and nothing else.\<close>

definition six_backticks_post :: "nat \<Rightarrow> attempt" where
  "six_backticks_post k = Success (JStr (replicate 6 backtick)) JNull"

text \<open>
  Two generators: the first answers \<open>r0\<close> at once, every attempt at the second times out.
\<close>

definition example_generators :: "string list" where
  "example_generators = [''m0'', ''m1'']"

definition example_generator_posts :: "nat \<Rightarrow> nat \<Rightarrow> attempt" where
  "example_generator_posts i k = (if i = 0 then Success (JStr ''r0'') JNull else TimeoutException)"

definition example_utcnow :: "nat \<Rightarrow> datetime" where
  "example_utcnow i = 0"

definition example_agents :: "AgentResponse list" where
  "example_agents =
     stage1_generate_answers example_generators example_generator_posts example_utcnow
       ''What is two plus two?''"

text \<open>
  Four judges: every attempt at the first is rate limited; the second answers prose; the
  third answers an object whose rankings entry is a string; the fourth answers an empty
  list. Any further judge repeats one agent.
\<close>

definition example_judge_posts :: "nat \<Rightarrow> nat \<Rightarrow> attempt" where
  \<open>example_judge_posts i k =
     (if i = 0 then HTTPStatusError 429
      else if i = 1 then Success (JStr ''I cannot rank these.'') JNull
      else if i = 2 then Success (JStr ''{"rankings": "agent_1 first"}'') JNull
      else if i = 3 then Success (JStr ''[]'') JNull
      else Success (JStr ''{"rankings": ["agent_1", "agent_1"]}'') JNull)\<close>


definition example_judges :: "string list" where
  "example_judges = [''j0'', ''j1'', ''j2'', ''j3'']"

definition example_outputs :: "json list" where
  "example_outputs =
     [fallback_api ''API error - using default ranking'',
      fallback_parse ''Failed to parse JSON - text response: I cannot rank these.'',
      JDict [(''rankings'', JStr ''agent_1 first'')],
      JList []]"

definition example_evaluations :: "JudgeEvaluation list" where
  "example_evaluations =
     [\<lparr> judge_id = ''judge_0'', judge_model = ''j0'',
         rankings = [''agent_0'', ''agent_1'', ''agent_2''], scores = [],
         rationale = ''API error - using default ranking'' \<rparr>,
      \<lparr> judge_id = ''judge_1'', judge_model = ''j1'',
         rankings = [''agent_0'', ''agent_1'', ''agent_2''], scores = [],
         rationale = ''Failed to parse JSON - text response: I cannot rank these.'' \<rparr>,
      \<lparr> judge_id = ''judge_2'', judge_model = ''j2'',
         rankings = [''agent_0'', ''agent_1''], scores = [],
         rationale = ''Error processing judge response: <error>'' \<rparr>,
      \<lparr> judge_id = ''judge_3'', judge_model = ''j3'',
         rankings = [''agent_0'', ''agent_1''],
         scores =
           [(''agent_0'',
             [(''factual_accuracy'', Fin 5), (''completeness'', Fin 5), (''clarity'', Fin 5),
              (''safety'', Fin 5), (''citation_quality'', Fin 5)]),
            (''agent_1'',
             [(''factual_accuracy'', Fin 5), (''completeness'', Fin 5), (''clarity'', Fin 5),
              (''safety'', Fin 5), (''citation_quality'', Fin 5)])],
         rationale = ''Fallback ranking due to invalid JSON response: <value>'' \<rparr>]"

definition repeating_judge_posts :: "nat \<Rightarrow> nat \<Rightarrow> attempt" where
  \<open>repeating_judge_posts i k = Success (JStr ''{"rankings": ["agent_1", "agent_1"]}'') JNull\<close>

text \<open>
  Chairmen: one whose every attempt times out, one that answers without a confidence,
  and one whose answer matches an unsafe pattern; two judges that agree; and a run of the
  pipeline with the last chairman, together with the decisions, the audit row and the
  response that these inputs produce.
\<close>

definition failing_chairman_post :: "nat \<Rightarrow> attempt" where
  "failing_chairman_post k = TimeoutException"

definition terse_chairman_post :: "nat \<Rightarrow> attempt" where
  \<open>terse_chairman_post k = Success (JStr ''{"final_answer": "Four."}'') JNull\<close>

definition unsafe_chairman_post :: "nat \<Rightarrow> attempt" where
  \<open>unsafe_chairman_post k =
     Success (JStr ''{"final_answer": "First, hack the calculator.", "confidence": 0.75}'') JNull\<close>

definition agreeing_judge_posts :: "nat \<Rightarrow> nat \<Rightarrow> attempt" where
  \<open>agreeing_judge_posts i k =
     Success (JStr ''{"rankings": ["agent_0", "agent_1"], "scores": {}, "rationale": "ok"}'')
       JNull\<close>

definition example_config :: config where
  "example_config = \<lparr> GENERATOR_MODELS = example_generators, JUDGE_MODELS = [''j0'', ''j1''] \<rparr>"

definition rejected_env :: environment where
  "rejected_env =
     \<lparr> generator_posts = example_generator_posts,
       judge_posts = agreeing_judge_posts,
       chairman_post = unsafe_chairman_post,
       generator_utcnow = example_utcnow,
       decision_utcnow = 1,
       uuid4 = ''id-2'',
       loop_time_start = 0,
       loop_time_stage3 = 1.5,
       loop_time_end = 2 \<rparr>"


definition example_fallback_decision :: DecisionObject where
  "example_fallback_decision =
     \<lparr> question = ''What is two plus two?'',
       final_answer = ''Based on the responses: m0...'',
       confidence = 0.5,
       agent_responses = example_agents,
       judge_evaluations = [],
       risks = [\<lparr> category = ''api_error'', severity = ''medium'',
                  description = ''Chairman synthesis failed, using fallback'' \<rparr>],
       citations = [],
       timestamp = 1,
       audit_id = ''id-1'',
       processing_time_seconds = Some 2 \<rparr>"

definition example_terse_decision :: DecisionObject where
  "example_terse_decision =
     \<lparr> question = ''What is two plus two?'',
       final_answer = ''Four.'',
       confidence = 0.5,
       agent_responses = example_agents,
       judge_evaluations = [],
       risks = [],
       citations = [],
       timestamp = 1,
       audit_id = ''id-1'',
       processing_time_seconds = Some 2 \<rparr>"

definition example_rejected_row :: audit_row where
  "example_rejected_row =
     \<lparr> row_audit_id = ''id-2'',
       row_timestamp = 1,
       row_question = ''What is two plus two?'',
       row_final_answer = ''First, hack the calculator.'',
       row_confidence = 0.75,
       row_agent_responses = example_agents,
       row_judge_evaluations =
         [\<lparr> judge_id = ''judge_0'', judge_model = ''j0'',
             rankings = [''agent_0'', ''agent_1''], scores = [], rationale = ''ok'' \<rparr>,
          \<lparr> judge_id = ''judge_1'', judge_model = ''j1'',
             rankings = [''agent_0'', ''agent_1''], scores = [], rationale = ''ok'' \<rparr>],
       row_risks = [],
       row_citations = [],
       safety_passed = False,
       safety_violations =
         [Unsafe_pattern ''illegal_activity'' ''Detected unsafe pattern: illegal_activity''],
       safety_warnings = [],
       row_processing_time_seconds = Some 1.5 \<rparr>"

definition example_rejected_response :: CouncilResponse where
  "example_rejected_response =
     \<lparr> status = ''rejected'',
       decision = None,
       response_audit_id = ''id-2'',
       reason = Some ''Safety gate failed: 1 violation(s) detected'',
       response_processing_time_seconds = Some 2 \<rparr>"

text \<open>
  A second run, with a chairman whose answer is safe, and what the two runs hold at each
  step: the evaluations of the agreeing judges, the decisions, the safety result of the
  unsafe one, and the row and response of the approved run.
\<close>

definition safe_chairman_post :: "nat \<Rightarrow> attempt" where
  \<open>safe_chairman_post k =
     Success (JStr ''{"final_answer": "Four.", "confidence": 0.75}'') JNull\<close>

definition approved_env :: environment where
  "approved_env =
     \<lparr> generator_posts = example_generator_posts,
       judge_posts = agreeing_judge_posts,
       chairman_post = safe_chairman_post,
       generator_utcnow = example_utcnow,
       decision_utcnow = 1,
       uuid4 = ''id-1'',
       loop_time_start = 0,
       loop_time_stage3 = 1.5,
       loop_time_end = 2 \<rparr>"

definition example_agreeing_evaluations :: "JudgeEvaluation list" where
  "example_agreeing_evaluations =
     [\<lparr> judge_id = ''judge_0'', judge_model = ''j0'',
         rankings = [''agent_0'', ''agent_1''], scores = [], rationale = ''ok'' \<rparr>,
      \<lparr> judge_id = ''judge_1'', judge_model = ''j1'',
         rankings = [''agent_0'', ''agent_1''], scores = [], rationale = ''ok'' \<rparr>]"

definition example_safe_decision :: DecisionObject where
  "example_safe_decision =
     \<lparr> question = ''What is two plus two?'',
       final_answer = ''Four.'',
       confidence = 0.75,
       agent_responses = example_agents,
       judge_evaluations = example_agreeing_evaluations,
       risks = [],
       citations = [],
       timestamp = 1,
       audit_id = ''id-1'',
       processing_time_seconds = Some 1.5 \<rparr>"

definition example_unsafe_decision :: DecisionObject where
  "example_unsafe_decision =
     example_safe_decision
       \<lparr> final_answer := ''First, hack the calculator.'', audit_id := ''id-2'' \<rparr>"

definition example_unsafe_result :: SafetyResult where
  "example_unsafe_result =
     \<lparr> passed = False,
       violations =
         [Unsafe_pattern ''illegal_activity'' ''Detected unsafe pattern: illegal_activity''],
       warnings = [],
       echoed_confidence = 0.75 \<rparr>"

definition example_approved_row :: audit_row where
  "example_approved_row =
     \<lparr> row_audit_id = ''id-1'',
       row_timestamp = 1,
       row_question = ''What is two plus two?'',
       row_final_answer = ''Four.'',
       row_confidence = 0.75,
       row_agent_responses = example_agents,
       row_judge_evaluations = example_agreeing_evaluations,
       row_risks = [],
       row_citations = [],
       safety_passed = True,
       safety_violations = [],
       safety_warnings = [],
       row_processing_time_seconds = Some 1.5 \<rparr>"

definition example_approved_response :: CouncilResponse where
  "example_approved_response =
     \<lparr> status = ''approved'',
       decision = Some (example_safe_decision, None),
       response_audit_id = ''id-1'',
       reason = None,
       response_processing_time_seconds = Some 2 \<rparr>"

text \<open>
  An interpreter that can enter two containers and no more, and a call whose reply nests
  three.
\<close>

definition shallow_lib :: pylib where
  "shallow_lib = example_lib \<lparr> max_depth := 2 \<rparr>"

definition deep_reply_post :: "nat \<Rightarrow> attempt" where
  "deep_reply_post k = Success (JStr ''[[[1]]]'') JNull"

text \<open>Judges that answer an empty rankings list, and a call that answers a JSON list.\<close>

definition empty_rankings_judge_posts :: "nat \<Rightarrow> nat \<Rightarrow> attempt" where
  \<open>empty_rankings_judge_posts i k = Success (JStr ''{"rankings": []}'') JNull\<close>

definition list_reply_post :: "nat \<Rightarrow> attempt" where
  "list_reply_post k = Success (JStr ''[1]'') JNull"

section \<open>The safety gate's verdict\<close>

text \<open>
  C2. Whenever the safety gate returns a result, \<open>passed\<close> is true exactly when the
  violations list is empty; and two results with the same violations have the same
  \<open>passed\<close>, whatever their warnings are.
\<close>

theorem safety_passed_iff_no_violations:
  assumes "safety_check d = Inr r" and "safety_check d' = Inr r'"
    and "violations r' = violations r"
  shows "(passed r \<longleftrightarrow> violations r = []) \<and> passed r' = passed r"
  using assms by (auto simp: safety_check_def Let_def split: sum.splits)

text \<open>
  A decision with low confidence and a clean answer yields one warning, no violation, and
  passes; so does the same decision with high confidence, which yields no warning.
\<close>

theorem safety_passed_iff_no_violations_witness:
  "safety_check warning_only_decision
     = Inr \<lparr> passed = True, violations = [], warnings = [Low_confidence 0.25 0.5],
             echoed_confidence = 0.25 \<rparr>
   \<and> safety_check clean_decision
     = Inr \<lparr> passed = True, violations = [], warnings = [], echoed_confidence = 0.75 \<rparr>
   \<and> (passed \<lparr> passed = True, violations = [], warnings = [Low_confidence 0.25 0.5],
             echoed_confidence = 0.25 \<rparr>
        \<longleftrightarrow> violations \<lparr> passed = True, violations = [],
             warnings = [Low_confidence 0.25 0.5], echoed_confidence = 0.25 \<rparr> = [])"
proof -
  have a: "safety_check warning_only_decision
     = Inr \<lparr> passed = True, violations = [], warnings = [Low_confidence 0.25 0.5],
             echoed_confidence = 0.25 \<rparr>"
    by code_simp
  have b: "safety_check clean_decision
     = Inr \<lparr> passed = True, violations = [], warnings = [], echoed_confidence = 0.75 \<rparr>"
    by code_simp
  from safety_passed_iff_no_violations [OF a b] a b show ?thesis by simp
qed

text \<open>
  C9. With two judge evaluations whose rankings lists are empty, check 4 reads the first
  element of an empty list: the gate raises \<open>IndexError\<close> and returns no result.
\<close>

theorem safety_check_empty_rankings_raises:
  "safety_check empty_rankings_decision = Inl IndexError"
  by code_simp

text \<open>The gate returns a result whenever check 4 finds a first element to read.\<close>

lemma safety_check_returns:
  assumes "length (judge_evaluations d) \<ge> 2 \<Longrightarrow>
             rankings (judge_evaluations d ! 0) \<noteq> [] \<and> rankings (judge_evaluations d ! 1) \<noteq> []"
  shows "\<exists>r. safety_check d = Inr r"
  using assms
  by (auto simp: safety_check_def check_judges_def index0_def Let_def
           split: sum.splits list.splits)

text \<open>
  Such a decision arises in the pipeline: when both judges answer an empty rankings list,
  the run ends with status 500 and writes no audit row.
\<close>

lemma empty_rankings_run:
  "deliberate example_lib example_config
     (rejected_env \<lparr> judge_posts := empty_rankings_judge_posts \<rparr>) []
     ''What is two plus two?''
   = ([], Inl (HTTPException 500 ''Internal server error: <error>''))"
  by code_simp

section \<open>Statistics of an empty audit store\<close>

text \<open>
  C10. On a store with no record, \<open>get_statistics\<close> returns the zeroed aggregate: total
  count 0, mean confidence 0.0, pass rate 0.0 and mean processing time 0.0.
\<close>

theorem get_statistics_empty:
  "get_statistics [] =
     [(''total_decisions'', SInt 0), (''avg_confidence'', SFloat 0.0),
      (''pass_rate'', SFloat 0.0), (''avg_processing_time'', SFloat 0.0)]"
  by (simp add: get_statistics_def)

section \<open>A question that is too short\<close>

text \<open>
  C8. The question \<open>Why?\<close> is rejected before stage 1 runs and the audit store is left as
  it was, but the \<open>HTTPException\<close> with status 400 raised by the validation is caught by
  the handler for \<open>Exception\<close>: the caller receives status 500 with an
  internal-server-error detail.
\<close>

theorem short_question_internal_error:
  "deliberate L cfg env db ''Why?'' =
     (db, Inl (HTTPException 500
        (''Internal server error: ''
           @ str_exn L (HTTPException 400 ''Question must be at least 10 characters long''))))"
  by (simp add: deliberate_def deliberate_try_def is_ValueError_def strip_def)

section \<open>The recovery chain of \<open>query_model_json\<close>\<close>

text \<open>
  C4. A reply that consists of six backticks is not JSON, the first pattern matches it,
  and reading group 1 of that match raises \<open>IndexError\<close>, which leaves
  \<open>query_model_json\<close>.
\<close>

theorem six_backticks_raise:
  "query_model_json L six_backticks_post = Inl IndexError"
  by code_simp

text \<open>A reply that is valid JSON but no object is returned as it is: here a list.\<close>

lemma list_reply_is_returned:
  "query_model_json example_lib list_reply_post = Inr (JList [JInt 1])"
  by code_simp

text \<open>
  An exception of \<open>json.loads\<close> other than \<open>JSONDecodeError\<close> leaves the chain as well: a
  \<open>ValueError\<close> for an integer literal beyond the digit limit, a \<open>RecursionError\<close> for a
  reply nested too deep.
\<close>

lemma parse_content_other_exception:
  assumes "json_loads L s = Inl e" and "e \<noteq> JSONDecodeError"
  shows "parse_content L s = Inl e"
  using assms by (simp add: parse_content_def)

lemma deep_reply_raises:
  "query_model_json shallow_lib deep_reply_post = Inl RecursionError"
  by code_simp

section \<open>Stage 1: one response per generator, by position\<close>

lemma keys_dict_put_new:
  "k \<notin> set (map fst d) \<Longrightarrow> map fst (dict_put d k v) = map fst d @ [k]"
  by (simp add: dict_put_def)

lemma keys_foldl_dict_put:
  "distinct (map fst d @ map fst kvs) \<Longrightarrow>
     map fst (foldl (\<lambda>d (k, v). dict_put d k v) d kvs) = map fst d @ map fst kvs"
proof (induction kvs arbitrary: d)
  case Nil
  then show ?case by simp
next
  case (Cons kv kvs)
  obtain k v where kv: "kv = (k, v)" by (cases kv)
  from Cons.prems kv have new: "k \<notin> set (map fst d)" by auto
  from Cons.prems kv new have "distinct (map fst (dict_put d k v) @ map fst kvs)"
    by (auto simp: keys_dict_put_new)
  from Cons.IH [OF this] new kv show ?case
    by (simp add: keys_dict_put_new)
qed

lemma keys_dict_of_zip:
  assumes "distinct ks" and "length vs = length ks"
  shows "map fst (dict_of (zip ks vs)) = ks"
  using assms keys_foldl_dict_put [of "[]" "zip ks vs"]
  by (simp add: dict_of_def)

text \<open>
  With pairwise distinct model identifiers the dict has one key per position, and the
  stage's output is determined position by position.
\<close>

lemma stage1_by_position:
  assumes "distinct generator_models"
  shows "stage1_generate_answers generator_models posts utcnow q =
           map (\<lambda>i. \<lparr> agent_id = agent_name i, agent_model = generator_models ! i,
                       response = generator_models ! i, agent_timestamp = utcnow i \<rparr>)
               [0..<length generator_models]"
proof -
  have keys: "map fst (query_models_parallel generator_models posts) = generator_models"
    using assms by (simp add: query_models_parallel_def keys_dict_of_zip)
  then have len: "length (query_models_parallel generator_models posts) = length generator_models"
    by (metis length_map)
  show ?thesis
    by (rule nth_equalityI)
       (simp_all add: stage1_generate_answers_def keys len enumerate_eq_zip Let_def)
qed

text \<open>
  C3, as the code has it. Over \<open>N\<close> pairwise distinct generator identities, and whatever
  the upstream calls do (a call that fails on every attempt included), the stage returns
  exactly \<open>N\<close> responses, the one at position \<open>i\<close> tagged \<open>agent_i\<close> and carrying the
  \<open>i\<close>-th model identifier.
\<close>

theorem stage1_positional:
  assumes "distinct generator_models"
  shows "length (stage1_generate_answers generator_models posts utcnow q)
           = length generator_models
       \<and> (\<forall>i < length generator_models.
             agent_id (stage1_generate_answers generator_models posts utcnow q ! i)
               = agent_name i
           \<and> agent_model (stage1_generate_answers generator_models posts utcnow q ! i)
               = generator_models ! i)"
  by (simp add: stage1_by_position [OF assms])

theorem stage1_positional_witness:
  "distinct example_generators
   \<and> query_model 3 (example_generator_posts 1) = None
   \<and> length example_agents = length example_generators
   \<and> agent_id (example_agents ! 1) = ''agent_1''
   \<and> agent_model (example_agents ! 1) = ''m1''"
proof -
  have d: "distinct example_generators" by (simp add: example_generators_def)
  have f: "query_model 3 (example_generator_posts 1) = None" by code_simp
  have n: "agent_name 1 = ''agent_1''" by code_simp
  have l: "(1::nat) < length example_generators" by (simp add: example_generators_def)
  from stage1_positional [OF d, of example_generator_posts example_utcnow
      "''What is two plus two?''"] l n d f
  show ?thesis by (simp add: example_agents_def example_generators_def)
qed

text \<open>
  C3, as the claim states it, fails: the first generator replied \<open>r0\<close> and the second
  failed on all three attempts, yet the response fields are the two model identifiers;
  the first is not the reply text and the second carries no \<open>unavailable\<close> marker.
\<close>

theorem stage1_response_counterexample:
  "query_model 3 (example_generator_posts 0)
     = Some \<lparr> content = JStr ''r0'', reasoning_details = JNull \<rparr>
   \<and> query_model 3 (example_generator_posts 1) = None
   \<and> map response example_agents = [''m0'', ''m1'']
   \<and> response (example_agents ! 0) \<noteq> ''r0''
   \<and> \<not> contains ''unavailable'' (response (example_agents ! 1))"
  by code_simp

section \<open>Stage 2: what a judge evaluation holds\<close>

lemma sequence_length: "sequence xs = Inr vs \<Longrightarrow> length vs = length xs"
  by (induction xs arbitrary: vs) (auto split: sum.splits)

lemma sequence_map_JStr: "sequence (map validate_str xs) = Inr rk \<Longrightarrow> xs = map JStr rk"
  by (induction xs arbitrary: rk) (auto simp: validate_str_def split: sum.splits json.splits)

lemma validate_str_list_Inr: "validate_str_list v = Inr rk \<Longrightarrow> v = JList (map JStr rk)"
  by (auto simp: validate_str_list_def sequence_map_JStr split: json.splits)

lemma stage2_by_position:
  assumes "judge_outputs L judge_models posts = Inr outs"
  shows "length outs = length judge_models"
    and "stage2_judge_evaluation L judge_models posts q agents =
           Inr (map (\<lambda>i. structure_evaluation L (length agents) i (judge_models ! i) (outs ! i))
                    [0..<length judge_models])"
proof -
  from assms show len: "length outs = length judge_models"
    by (auto simp: judge_outputs_def dest: sequence_length)
  have "map (\<lambda>(i, (m, out)). structure_evaluation L (length agents) i m out)
            (enumerate 0 (zip judge_models outs))
        = map (\<lambda>i. structure_evaluation L (length agents) i (judge_models ! i) (outs ! i))
              [0..<length judge_models]"
    by (rule nth_equalityI) (simp_all add: len enumerate_eq_zip)
  with assms show "stage2_judge_evaluation L judge_models posts q agents =
           Inr (map (\<lambda>i. structure_evaluation L (length agents) i (judge_models ! i) (outs ! i))
                    [0..<length judge_models])"
    by (simp add: stage2_judge_evaluation_def)
qed

lemma structure_evaluation_no_rankings:
  assumes "\<not> has_rankings out"
  shows "structure_evaluation L n i m out =
           \<lparr> judge_id = judge_name i, judge_model = m,
             rankings = default_rankings n, scores = neutral_scores n,
             rationale = ''Fallback ranking due to invalid JSON response: ''
                           @ take 100 (str_json L out) \<rparr>"
  using assms by (auto simp: structure_evaluation_def has_rankings_def split: json.splits)

lemma structure_evaluation_fallback_api:
  "structure_evaluation L n i m (fallback_api why) =
     \<lparr> judge_id = judge_name i, judge_model = m,
       rankings = [''agent_0'', ''agent_1'', ''agent_2''], scores = [], rationale = why \<rparr>"
  by (simp add: structure_evaluation_def fallback_api_def has_key_def dict_get_def
        make_JudgeEvaluation_def validate_str_list_def validate_scores_def validate_str_def
        default_rankings3_def)

lemma structure_evaluation_fallback_parse:
  "structure_evaluation L n i m (fallback_parse why) =
     \<lparr> judge_id = judge_name i, judge_model = m,
       rankings = [''agent_0'', ''agent_1'', ''agent_2''], scores = [], rationale = why \<rparr>"
  by (simp add: structure_evaluation_def fallback_parse_def has_key_def dict_get_def
        make_JudgeEvaluation_def validate_str_list_def validate_scores_def validate_str_def
        default_rankings3_def)

lemma structure_evaluation_bad_rankings:
  assumes "has_key d ''rankings''" and "validate_str_list (dict_get d ''rankings'' JNull) = Inl e"
  shows "rankings (structure_evaluation L n i m (JDict d)) = default_rankings n
       \<and> scores (structure_evaluation L n i m (JDict d)) = []"
  using assms by (simp add: structure_evaluation_def make_JudgeEvaluation_def)

lemma has_key_map_of: "has_key d k \<Longrightarrow> \<exists>v. map_of d k = Some v"
  by (induction d) (auto simp: has_key_def)

lemma structure_evaluation_rankings:
  "(\<exists>d rk. out = JDict d \<and> map_of d ''rankings'' = Some (JList (map JStr rk))
             \<and> rankings (structure_evaluation L n i m out) = rk)
   \<or> rankings (structure_evaluation L n i m out) = default_rankings n"
proof (cases "has_rankings out")
  case False
  then show ?thesis by (simp add: structure_evaluation_no_rankings)
next
  case True
  then obtain d where d: "out = JDict d" "has_key d ''rankings''"
    by (auto simp: has_rankings_def split: json.splits)
  then obtain v where v: "map_of d ''rankings'' = Some v"
    using has_key_map_of by blast
  show ?thesis
  proof (cases "make_JudgeEvaluation L (judge_name i) m
                  (dict_get d ''rankings'' JNull)
                  (dict_get d ''scores'' (JDict []))
                  (dict_get d ''rationale'' (JStr ''No rationale provided''))")
    case (Inl e)
    with d show ?thesis by (simp add: structure_evaluation_def)
  next
    case (Inr ev)
    then have "validate_str_list v = Inr (rankings ev)"
      using v by (auto simp: make_JudgeEvaluation_def dict_get_def split: sum.splits)
    then have "v = JList (map JStr (rankings ev))" by (rule validate_str_list_Inr)
    with d v Inr show ?thesis by (simp add: structure_evaluation_def)
  qed
qed

lemma neutral_scores_cover:
  "map fst (neutral_scores n) = default_rankings n
   \<and> list_all (\<lambda>(a, cs). map fst cs = CRITERIA \<and> list_all (\<lambda>(c, v). v = Fin 5) cs)
        (neutral_scores n)"
  by (simp add: neutral_scores_def default_rankings_def list_all_iff comp_def)


lemma example_outputs_eval:
  "judge_outputs example_lib example_judges example_judge_posts = Inr example_outputs"
  by code_simp

lemma example_evaluations_eval:
  "stage2_judge_evaluation example_lib example_judges example_judge_posts
     ''What is two plus two?'' example_agents = Inr example_evaluations"
  by code_simp

text \<open>
  C5, as the code has it. Stage 2 returns one evaluation per judge. For judge \<open>i\<close>:
  when the reply is not an object or has no rankings key, the evaluation ranks the agents
  in their original order and scores every agent 5 on every criterion; when the reply is
  the fallback-tagged object of \<open>query_model_json\<close>, the evaluation takes that
  object's own rankings \<open>agent_0, agent_1, agent_2\<close> and its empty scores; when the
  reply has a rankings key whose value is not a list of strings, the evaluation ranks the
  agents in their original order and its scores are empty.
\<close>

theorem evaluation_defaults:
  assumes "judge_outputs L judge_models posts = Inr outs" and "i < length judge_models"
  shows "\<exists>evs. stage2_judge_evaluation L judge_models posts q agents = Inr evs
           \<and> length evs = length judge_models
           \<and> (\<not> has_rankings (outs ! i) \<longrightarrow>
                  rankings (evs ! i) = default_rankings (length agents)
                \<and> map fst (scores (evs ! i)) = default_rankings (length agents)
                \<and> list_all (\<lambda>(a, cs). map fst cs = CRITERIA
                                         \<and> list_all (\<lambda>(c, v). v = Fin 5) cs)
                            (scores (evs ! i)))
           \<and> ((\<exists>why. outs ! i = fallback_api why \<or> outs ! i = fallback_parse why) \<longrightarrow>
                  rankings (evs ! i) = [''agent_0'', ''agent_1'', ''agent_2'']
                \<and> scores (evs ! i) = [])
           \<and> (\<forall>d e. outs ! i = JDict d \<and> has_key d ''rankings''
                     \<and> validate_str_list (dict_get d ''rankings'' JNull) = Inl e \<longrightarrow>
                  rankings (evs ! i) = default_rankings (length agents)
                \<and> scores (evs ! i) = [])"
proof -
  let ?ev = "structure_evaluation L (length agents) i (judge_models ! i) (outs ! i)"
  let ?evs = "map (\<lambda>i. structure_evaluation L (length agents) i (judge_models ! i) (outs ! i))
                  [0..<length judge_models]"
  have run: "stage2_judge_evaluation L judge_models posts q agents = Inr ?evs"
    by (rule stage2_by_position(2) [OF assms(1)])
  have nth: "?evs ! i = ?ev" using assms(2) by simp
  have a: "\<not> has_rankings (outs ! i) \<longrightarrow>
             rankings ?ev = default_rankings (length agents)
           \<and> map fst (scores ?ev) = default_rankings (length agents)
           \<and> list_all (\<lambda>(a, cs). map fst cs = CRITERIA \<and> list_all (\<lambda>(c, v). v = Fin 5) cs)
                       (scores ?ev)"
    using neutral_scores_cover [of "length agents"]
    by (simp add: structure_evaluation_no_rankings)
  have b: "(\<exists>why. outs ! i = fallback_api why \<or> outs ! i = fallback_parse why) \<longrightarrow>
             rankings ?ev = [''agent_0'', ''agent_1'', ''agent_2''] \<and> scores ?ev = []"
    by (auto simp: structure_evaluation_fallback_api structure_evaluation_fallback_parse)
  have c: "\<forall>d e. outs ! i = JDict d \<and> has_key d ''rankings''
                 \<and> validate_str_list (dict_get d ''rankings'' JNull) = Inl e \<longrightarrow>
             rankings ?ev = default_rankings (length agents) \<and> scores ?ev = []"
    using structure_evaluation_bad_rankings by auto
  from run nth a b c show ?thesis by auto
qed

theorem evaluation_defaults_witness:
  "judge_outputs example_lib example_judges example_judge_posts = Inr example_outputs
   \<and> stage2_judge_evaluation example_lib example_judges example_judge_posts
       ''What is two plus two?'' example_agents = Inr example_evaluations
   \<and> \<not> has_rankings (example_outputs ! 3)
   \<and> rankings (example_evaluations ! 3) = [''agent_0'', ''agent_1'']
   \<and> map fst (scores (example_evaluations ! 3)) = [''agent_0'', ''agent_1'']
   \<and> example_outputs ! 0 = fallback_api ''API error - using default ranking''
   \<and> rankings (example_evaluations ! 0) = [''agent_0'', ''agent_1'', ''agent_2'']
   \<and> scores (example_evaluations ! 0) = []"
proof -
  have i3: "3 < length example_judges" and i0: "0 < length example_judges"
    by (simp_all add: example_judges_def)
  have n: "default_rankings (length example_agents) = [''agent_0'', ''agent_1'']"
    by code_simp
  have h3: "\<not> has_rankings (example_outputs ! 3)" by code_simp
  have h0: "example_outputs ! 0 = fallback_api ''API error - using default ranking''"
    by (simp add: example_outputs_def)
  from evaluation_defaults [OF example_outputs_eval i3,
      of "''What is two plus two?''" example_agents] h3 n
  have t3: "rankings (example_evaluations ! 3) = [''agent_0'', ''agent_1'']
            \<and> map fst (scores (example_evaluations ! 3)) = [''agent_0'', ''agent_1'']"
    by (auto simp: example_evaluations_eval)
  from evaluation_defaults [OF example_outputs_eval i0,
      of "''What is two plus two?''" example_agents] h0
  have t0: "rankings (example_evaluations ! 0) = [''agent_0'', ''agent_1'', ''agent_2'']
            \<and> scores (example_evaluations ! 0) = []"
    by (auto simp: example_evaluations_eval)
  from example_outputs_eval example_evaluations_eval h3 h0 t3 t0 show ?thesis by simp
qed

text \<open>
  C5, as the claim states it, fails: every attempt at the judge is rate limited, the
  reply is the fallback-tagged object, and the evaluation has empty scores and ranks three
  agents in a run that has two.
\<close>

theorem fallback_scores_counterexample:
  "query_model_json example_lib (example_judge_posts 0)
     = Inr (fallback_api ''API error - using default ranking'')
   \<and> stage2_judge_evaluation example_lib [''j0''] example_judge_posts
       ''What is two plus two?'' example_agents
     = Inr [\<lparr> judge_id = ''judge_0'', judge_model = ''j0'',
               rankings = [''agent_0'', ''agent_1'', ''agent_2''], scores = [],
               rationale = ''API error - using default ranking'' \<rparr>]
   \<and> map agent_id example_agents = [''agent_0'', ''agent_1'']"
  by code_simp

lemma stage1_agent_ids:
  assumes "distinct generator_models"
  shows "map agent_id (stage1_generate_answers generator_models posts utcnow q)
           = default_rankings (length (stage1_generate_answers generator_models posts utcnow q))"
  by (simp add: stage1_by_position [OF assms] default_rankings_def comp_def)

text \<open>
  C6, as the code has it. Over pairwise distinct generator identities, the rankings of
  judge \<open>i\<close>'s evaluation are either the list of strings under the reply's own
  rankings key, taken as it is, or the agent identities of the run in their original
  order.
\<close>

theorem rankings_origin:
  assumes "distinct generator_models"
    and "judge_outputs L judge_models posts = Inr outs" and "i < length judge_models"
  shows "\<exists>evs. stage2_judge_evaluation L judge_models posts q
                  (stage1_generate_answers generator_models gposts utcnow q) = Inr evs
           \<and> length evs = length judge_models
           \<and> ((\<exists>d rk. outs ! i = JDict d
                      \<and> map_of d ''rankings'' = Some (JList (map JStr rk))
                      \<and> rankings (evs ! i) = rk)
               \<or> rankings (evs ! i)
                   = map agent_id (stage1_generate_answers generator_models gposts utcnow q))"
proof -
  let ?agents = "stage1_generate_answers generator_models gposts utcnow q"
  let ?evs = "map (\<lambda>i. structure_evaluation L (length ?agents) i (judge_models ! i) (outs ! i))
                  [0..<length judge_models]"
  have run: "stage2_judge_evaluation L judge_models posts q ?agents = Inr ?evs"
    by (rule stage2_by_position(2) [OF assms(2)])
  have nth: "?evs ! i = structure_evaluation L (length ?agents) i (judge_models ! i) (outs ! i)"
    using assms(3) by simp
  from structure_evaluation_rankings [of "outs ! i" L "length ?agents" i "judge_models ! i"]
    run nth stage1_agent_ids [OF assms(1), of gposts utcnow q]
  show ?thesis by auto
qed

theorem rankings_origin_witness:
  "distinct example_generators
   \<and> judge_outputs example_lib example_judges example_judge_posts = Inr example_outputs
   \<and> stage2_judge_evaluation example_lib example_judges example_judge_posts
       ''What is two plus two?'' example_agents = Inr example_evaluations
   \<and> rankings (example_evaluations ! 2) = map agent_id example_agents"
proof -
  have d: "distinct example_generators" by (simp add: example_generators_def)
  have i2: "2 < length example_judges" by (simp add: example_judges_def)
  have o2: "example_outputs ! 2 = JDict [(''rankings'', JStr ''agent_1 first'')]"
    by (simp add: example_outputs_def)
  from rankings_origin [OF d example_outputs_eval i2,
      of "''What is two plus two?''" example_generator_posts example_utcnow] o2
  have "rankings (example_evaluations ! 2) = map agent_id example_agents"
    by (auto simp: example_evaluations_eval [unfolded example_agents_def] example_agents_def)
  with d example_outputs_eval example_evaluations_eval show ?thesis by simp
qed

text \<open>
  C6, as the claim states it, fails: a judge that names \<open>agent_1\<close> twice has
  that list as its rankings, which is no permutation of the two agent identities.
\<close>

theorem rankings_permutation_counterexample:
  "stage2_judge_evaluation example_lib [''j0''] repeating_judge_posts
       ''What is two plus two?'' example_agents
     = Inr [\<lparr> judge_id = ''judge_0'', judge_model = ''j0'',
               rankings = [''agent_1'', ''agent_1''], scores = [],
               rationale = ''No rationale provided'' \<rparr>]
   \<and> map agent_id example_agents = [''agent_0'', ''agent_1'']
   \<and> mset [''agent_1'', ''agent_1''] \<noteq> mset [''agent_0'', ''agent_1'']"
proof -
  have a: "stage2_judge_evaluation example_lib [''j0''] repeating_judge_posts
       ''What is two plus two?'' example_agents
     = Inr [\<lparr> judge_id = ''judge_0'', judge_model = ''j0'',
               rankings = [''agent_1'', ''agent_1''], scores = [],
               rationale = ''No rationale provided'' \<rparr>]"
    by code_simp
  have b: "map agent_id example_agents = [''agent_0'', ''agent_1'']" by code_simp
  have c: "mset [''agent_1'', ''agent_1''] \<noteq> mset [''agent_0'', ''agent_1'']" by simp
  from a b c show ?thesis by simp
qed

section \<open>Stage 3: the fallback decision\<close>

lemma build_decision_audit_id:
  "build_decision L synthesis now stamp uuid q agents evals start_time = Inr d \<Longrightarrow> audit_id d = uuid"
  by (auto simp: build_decision_def Let_def split: json.splits if_splits sum.splits prod.splits)

lemma stage3_audit_id:
  "stage3_synthesize_decision L post now stamp uuid q agents evals start_time = Inr d \<Longrightarrow> audit_id d = uuid"
  by (auto simp: stage3_synthesize_decision_def build_decision_audit_id split: sum.splits)

lemma build_decision_fallback:
  assumes "truthy (dict_get d ''fallback'' JNull)" and "agents \<noteq> []"
  shows "build_decision L (JDict d) now stamp uuid q agents evals start_time =
           Inr \<lparr> question = q,
                 final_answer = ''Based on the responses: '' @ take 200 (response (hd agents)) @ ''...'',
                 confidence = 0.5,
                 agent_responses = agents,
                 judge_evaluations = evals,
                 risks = [\<lparr> category = ''api_error'', severity = ''medium'',
                            description = ''Chairman synthesis failed, using fallback'' \<rparr>],
                 citations = [],
                 timestamp = stamp,
                 audit_id = uuid,
                 processing_time_seconds = Some (py_round (now - start_time) 2) \<rparr>"
  using assms by (cases agents) (simp_all add: build_decision_def index0_def Let_def)

lemma build_decision_default_confidence:
  assumes "\<not> truthy (dict_get d ''fallback'' JNull)" and "\<not> has_key d ''confidence''"
    and "build_decision L (JDict d) now stamp uuid q agents evals start_time = Inr dec"
  shows "confidence dec = 0.5"
proof -
  from assms(2) have "map_of d ''confidence'' = None"
    by (simp add: has_key_def map_of_eq_None_iff)
  then have "validate_unit L (dict_get d ''confidence'' (JFloat (Fin 0.5))) = Inr 0.5"
    by (simp add: dict_get_def validate_unit_def validate_float_def)
  with assms(1,3) show ?thesis
    by (auto simp: build_decision_def Let_def split: sum.splits)
qed


text \<open>
  C7, as the code has it. When the synthesizer reply is fallback-tagged and there is at
  least one generator response, stage 3 returns a decision whose confidence is 0.5, whose
  only risk has category \<open>api_error\<close> and severity \<open>medium\<close>, whose citations are
  empty, and whose final answer is a fixed prefix, the first 200 characters of the first
  generator's response, and an ellipsis (at most 227 characters). The confidence is the
  same number that the normal path takes when the reply has no confidence entry.
\<close>

theorem fallback_decision:
  assumes "query_model_json L post = Inr (JDict d)"
    and "truthy (dict_get d ''fallback'' JNull)" and "agents \<noteq> []"
    and "\<not> truthy (dict_get d' ''fallback'' JNull)" and "\<not> has_key d' ''confidence''"
    and "build_decision L (JDict d') now' stamp' uuid' q' agents' evals' start_time' = Inr dec'"
  shows "stage3_synthesize_decision L post now stamp uuid q agents evals start_time =
           Inr \<lparr> question = q,
                 final_answer = ''Based on the responses: '' @ take 200 (response (hd agents)) @ ''...'',
                 confidence = 0.5,
                 agent_responses = agents,
                 judge_evaluations = evals,
                 risks = [\<lparr> category = ''api_error'', severity = ''medium'',
                            description = ''Chairman synthesis failed, using fallback'' \<rparr>],
                 citations = [],
                 timestamp = stamp,
                 audit_id = uuid,
                 processing_time_seconds = Some (py_round (now - start_time) 2) \<rparr>
       \<and> length (''Based on the responses: '' @ take 200 (response (hd agents)) @ ''...'') \<le> 227
       \<and> confidence dec' = 0.5"
  using assms(1) build_decision_fallback [OF assms(2,3)]
    build_decision_default_confidence [OF assms(4,5,6)]
  by (simp add: stage3_synthesize_decision_def)

theorem fallback_decision_witness:
  "query_model_json example_lib failing_chairman_post
     = Inr (fallback_api ''API error - using default ranking'')
   \<and> example_agents \<noteq> []
   \<and> stage3_synthesize_decision example_lib failing_chairman_post 2 1 ''id-1''
       ''What is two plus two?'' example_agents [] 0 = Inr example_fallback_decision
   \<and> build_decision example_lib (JDict [(''final_answer'', JStr ''Four.'')]) 2 1 ''id-1''
       ''What is two plus two?'' example_agents [] 0 = Inr example_terse_decision
   \<and> confidence example_terse_decision = 0.5"
proof -
  have a: "query_model_json example_lib failing_chairman_post
             = Inr (JDict [(''rankings'', default_rankings3),
                           (''scores'', JDict []),
                           (''rationale'', JStr ''API error - using default ranking''),
                           (''final_answer'',
                              JStr ''Unable to generate synthesis due to API rate limits''),
                           (''confidence'', JFloat (binary64 0.3)),
                           (''risks'', JList []),
                           (''citations'', JList []),
                           (''fallback'', JBool True)])"
    by code_simp
  have b: "truthy (dict_get [(''rankings'', default_rankings3),
                           (''scores'', JDict []),
                           (''rationale'', JStr ''API error - using default ranking''),
                           (''final_answer'',
                              JStr ''Unable to generate synthesis due to API rate limits''),
                           (''confidence'', JFloat (binary64 0.3)),
                           (''risks'', JList []),
                           (''citations'', JList []),
                           (''fallback'', JBool True)] ''fallback'' JNull)"
    by (simp add: truthy_def dict_get_def)
  have c: "example_agents \<noteq> []" by code_simp
  have d: "\<not> truthy (dict_get [(''final_answer'', JStr ''Four.'')] ''fallback'' JNull)"
    by (simp add: truthy_def dict_get_def)
  have e: "\<not> has_key [(''final_answer'', JStr ''Four.'')] ''confidence''"
    by (simp add: has_key_def)
  have f: "build_decision example_lib (JDict [(''final_answer'', JStr ''Four.'')]) 2 1 ''id-1''
       ''What is two plus two?'' example_agents [] 0 = Inr example_terse_decision"
    by code_simp
  have g: "stage3_synthesize_decision example_lib failing_chairman_post 2 1 ''id-1''
       ''What is two plus two?'' example_agents [] 0 = Inr example_fallback_decision"
    by code_simp
  from fallback_decision [OF a b c d e f, of 2 1 "''id-1''"
      "''What is two plus two?''" "[]" 0] a c f g
  show ?thesis by (simp add: fallback_api_def)
qed

text \<open>
  C7, as the claim states it, fails: the decision built from a fallback-tagged reply and
  the decision built from a reply without a confidence entry carry the same confidence.
\<close>

theorem fallback_confidence_counterexample:
  "stage3_synthesize_decision example_lib failing_chairman_post 2 1 ''id-1''
       ''What is two plus two?'' example_agents [] 0 = Inr example_fallback_decision
   \<and> stage3_synthesize_decision example_lib terse_chairman_post 2 1 ''id-1''
       ''What is two plus two?'' example_agents [] 0 = Inr example_terse_decision
   \<and> confidence example_fallback_decision = confidence example_terse_decision"
  by code_simp

section \<open>One audit record per run\<close>

lemma example_approved_run:
  "deliberate example_lib example_config approved_env [] ''What is two plus two?''
     = ([example_approved_row], Inr example_approved_response)"
  by code_simp

lemma example_rejected_run:
  "deliberate example_lib example_config rejected_env [example_approved_row]
       ''What is two plus two?''
     = ([example_approved_row, example_rejected_row], Inr example_rejected_response)"
  by code_simp

lemma example_rejected_stages:
  "stage2_judge_evaluation example_lib (JUDGE_MODELS example_config) (judge_posts rejected_env)
       ''What is two plus two?''
       (stage1_generate_answers (GENERATOR_MODELS example_config)
          (generator_posts rejected_env) (generator_utcnow rejected_env)
          ''What is two plus two?'')
     = Inr example_agreeing_evaluations"
  "stage3_synthesize_decision example_lib (chairman_post rejected_env)
       (loop_time_stage3 rejected_env) (decision_utcnow rejected_env) (uuid4 rejected_env)
       ''What is two plus two?''
       (stage1_generate_answers (GENERATOR_MODELS example_config)
          (generator_posts rejected_env) (generator_utcnow rejected_env)
          ''What is two plus two?'')
       example_agreeing_evaluations (loop_time_start rejected_env)
     = Inr example_unsafe_decision"
  "safety_check example_unsafe_decision = Inr example_unsafe_result"
  by code_simp+

text \<open>
  C1. A run whose question is long enough, whose stages return and whose safety gate
  returns a result, and whose identifier is not yet a key of the audit table, appends
  exactly one row to the table: the row of its decision and safety result, keyed by the
  run's identifier and carrying the gate's verdict, passed or not. It then returns
  \<open>approved\<close> or \<open>rejected\<close> with that identifier. Conversely, a run that returns a
  response is such a run: it returns \<open>approved\<close> or \<open>rejected\<close> and has appended exactly
  one row under its identifier, which no earlier row carries. A run that ends in an error
  leaves the table as it was.
\<close>

theorem audit_record_per_run:
  "(10 \<le> length (strip q)
     \<and> stage2_judge_evaluation L (JUDGE_MODELS cfg) (judge_posts env) q
         (stage1_generate_answers (GENERATOR_MODELS cfg) (generator_posts env)
            (generator_utcnow env) q) = Inr evals
     \<and> stage3_synthesize_decision L (chairman_post env) (loop_time_stage3 env)
         (decision_utcnow env) (uuid4 env) q
         (stage1_generate_answers (GENERATOR_MODELS cfg) (generator_posts env)
            (generator_utcnow env) q) evals (loop_time_start env) = Inr d
     \<and> safety_check d = Inr sr
     \<and> uuid4 env \<notin> set (map row_audit_id db)
    \<longrightarrow> (\<exists>r. deliberate L cfg env db q = (db @ [audit_row_of d sr], Inr r)
              \<and> status r = (if passed sr then ''approved'' else ''rejected'')
              \<and> response_audit_id r = uuid4 env)
        \<and> row_audit_id (audit_row_of d sr) = uuid4 env
        \<and> safety_passed (audit_row_of d sr) = passed sr
        \<and> length (filter (\<lambda>row. row_audit_id row = uuid4 env)
                      (db @ [audit_row_of d sr])) = 1)
   \<and> (deliberate L cfg env db q = (db', Inr r') \<longrightarrow>
        (status r' = ''approved'' \<or> status r' = ''rejected'')
        \<and> response_audit_id r' = uuid4 env
        \<and> response_audit_id r' \<notin> set (map row_audit_id db)
        \<and> (\<exists>d' sr'. safety_check d' = Inr sr'
                  \<and> db' = db @ [audit_row_of d' sr']
                  \<and> audit_id d' = response_audit_id r'
                  \<and> (passed sr' \<longleftrightarrow> status r' = ''approved''))
        \<and> length (filter (\<lambda>row. row_audit_id row = response_audit_id r') db') = 1)
   \<and> (deliberate L cfg env db q = (db'', Inl e) \<longrightarrow> db'' = db)"
proof (intro conjI impI)
  let ?agents = "stage1_generate_answers (GENERATOR_MODELS cfg) (generator_posts env)
                   (generator_utcnow env) q"
  {
    assume pre: "10 \<le> length (strip q)
      \<and> stage2_judge_evaluation L (JUDGE_MODELS cfg) (judge_posts env) q ?agents = Inr evals
      \<and> stage3_synthesize_decision L (chairman_post env) (loop_time_stage3 env)
          (decision_utcnow env) (uuid4 env) q ?agents evals (loop_time_start env) = Inr d
      \<and> safety_check d = Inr sr
      \<and> uuid4 env \<notin> set (map row_audit_id db)"
    then have key: "audit_id d = uuid4 env" by (auto dest: stage3_audit_id)
    from pre have q: "q \<noteq> []" "\<not> length (strip q) < 10" by (auto simp: strip_def)
    from pre key have fresh: "audit_id d \<notin> set (map row_audit_id db)" by simp
    from pre q fresh key
    show "\<exists>r. deliberate L cfg env db q = (db @ [audit_row_of d sr], Inr r)
              \<and> status r = (if passed sr then ''approved'' else ''rejected'')
              \<and> response_audit_id r = uuid4 env"
      by (auto simp: deliberate_def deliberate_try_def log_decision_def Let_def)
    from key show "row_audit_id (audit_row_of d sr) = uuid4 env"
      by (simp add: audit_row_of_def)
    show "safety_passed (audit_row_of d sr) = passed sr" by (simp add: audit_row_of_def)
    from fresh key have "filter (\<lambda>row. row_audit_id row = uuid4 env) db = []"
      by (force simp: filter_empty_conv)
    with key show "length (filter (\<lambda>row. row_audit_id row = uuid4 env)
                      (db @ [audit_row_of d sr])) = 1"
      by (simp add: audit_row_of_def)
  }
  {
    assume ret: "deliberate L cfg env db q = (db', Inr r')"
    then have body: "deliberate_try L cfg env db q = (db', Inr r')"
      by (auto simp: deliberate_def split: prod.splits sum.splits if_splits)
    from body obtain evals' where
      s2: "stage2_judge_evaluation L (JUDGE_MODELS cfg) (judge_posts env) q ?agents = Inr evals'"
      by (auto simp: deliberate_try_def Let_def split: if_splits sum.splits)
    from body s2 obtain d' where
      s3: "stage3_synthesize_decision L (chairman_post env) (loop_time_stage3 env)
             (decision_utcnow env) (uuid4 env) q ?agents evals' (loop_time_start env) = Inr d'"
      by (auto simp: deliberate_try_def Let_def split: if_splits sum.splits)
    from body s2 s3 obtain sr' where sc: "safety_check d' = Inr sr'"
      by (auto simp: deliberate_try_def Let_def split: if_splits sum.splits)
    from body s2 s3 sc have fresh: "audit_id d' \<notin> set (map row_audit_id db)"
      and log: "db' = db @ [audit_row_of d' sr']"
      and resp: "response_audit_id r' = audit_id d'"
        "status r' = (if passed sr' then ''approved'' else ''rejected'')"
      by (auto simp: deliberate_try_def log_decision_def Let_def split: if_splits)
    have key: "audit_id d' = uuid4 env" by (rule stage3_audit_id [OF s3])
    from resp show "status r' = ''approved'' \<or> status r' = ''rejected''" by simp
    from resp key show "response_audit_id r' = uuid4 env" by simp
    from resp fresh show "response_audit_id r' \<notin> set (map row_audit_id db)" by simp
    from sc log resp show "\<exists>d' sr'. safety_check d' = Inr sr'
                  \<and> db' = db @ [audit_row_of d' sr']
                  \<and> audit_id d' = response_audit_id r'
                  \<and> (passed sr' \<longleftrightarrow> status r' = ''approved'')"
      by auto
    from fresh have "filter (\<lambda>row. row_audit_id row = audit_id d') db = []"
      by (force simp: filter_empty_conv)
    with log resp show "length (filter (\<lambda>row. row_audit_id row = response_audit_id r') db') = 1"
      by (simp add: audit_row_of_def)
  }
  {
    assume "deliberate L cfg env db q = (db'', Inl e)"
    then show "db'' = db"
      by (auto simp: deliberate_def deliberate_try_def log_decision_def Let_def
               split: prod.splits sum.splits if_splits)
  }
qed

text \<open>
  Two runs in a row: the first is approved and writes its row to the empty table; the
  second, whose final answer matches an unsafe pattern, is rejected and its row follows the
  first, with the safety flag cleared.
\<close>

theorem audit_record_per_run_witness:
  "deliberate example_lib example_config approved_env [] ''What is two plus two?''
     = ([example_approved_row], Inr example_approved_response)
   \<and> deliberate example_lib example_config rejected_env [example_approved_row]
       ''What is two plus two?''
     = ([example_approved_row, example_rejected_row], Inr example_rejected_response)
   \<and> status example_approved_response = ''approved''
   \<and> status example_rejected_response = ''rejected''
   \<and> map row_audit_id [example_approved_row, example_rejected_row] = [''id-1'', ''id-2'']
   \<and> map safety_passed [example_approved_row, example_rejected_row] = [True, False]
   \<and> 10 \<le> length (strip ''What is two plus two?'')
   \<and> safety_check example_unsafe_decision = Inr example_unsafe_result
   \<and> uuid4 rejected_env \<notin> set (map row_audit_id [example_approved_row])
   \<and> [example_approved_row, example_rejected_row]
       = [example_approved_row] @ [audit_row_of example_unsafe_decision example_unsafe_result]
   \<and> length (filter (\<lambda>row. row_audit_id row = uuid4 rejected_env)
               [example_approved_row, example_rejected_row]) = 1
   \<and> length (filter (\<lambda>row. row_audit_id row = response_audit_id example_approved_response)
               [example_approved_row]) = 1"
proof -
  have q: "10 \<le> length (strip ''What is two plus two?'')" by code_simp
  have fresh: "uuid4 rejected_env \<notin> set (map row_audit_id [example_approved_row])"
    by (simp add: rejected_env_def example_approved_row_def)
  have row: "[example_approved_row, example_rejected_row]
       = [example_approved_row] @ [audit_row_of example_unsafe_decision example_unsafe_result]"
    by code_simp
  note inst = audit_record_per_run [of "''What is two plus two?''" example_lib example_config
      rejected_env example_agreeing_evaluations example_unsafe_decision example_unsafe_result
      "[example_approved_row]"]
  from inst [THEN conjunct1] q example_rejected_stages fresh row
  have one: "length (filter (\<lambda>row. row_audit_id row = uuid4 rejected_env)
               [example_approved_row, example_rejected_row]) = 1"
    by simp
  from audit_record_per_run [of "''What is two plus two?''" example_lib example_config
      approved_env _ _ _ "[]" "[example_approved_row]" example_approved_response,
      THEN conjunct2, THEN conjunct1] example_approved_run
  have two: "length (filter (\<lambda>row. row_audit_id row = response_audit_id example_approved_response)
               [example_approved_row]) = 1"
    by (simp split: if_splits)
  have st: "status example_approved_response = ''approved''"
    "status example_rejected_response = ''rejected''"
    by (simp_all add: example_approved_response_def example_rejected_response_def)
  have ids: "map row_audit_id [example_approved_row, example_rejected_row] = [''id-1'', ''id-2'']"
    by (simp add: example_approved_row_def example_rejected_row_def)
  have flags: "map safety_passed [example_approved_row, example_rejected_row] = [True, False]"
    by (simp add: example_approved_row_def example_rejected_row_def)
  show ?thesis
    by (intro conjI)
       (rule example_approved_run example_rejected_run st ids flags q
          example_rejected_stages(3) fresh row one two)+
qed

end
